theory Spec2Isabelle
  imports Main "HOL-Library.Word" "HOL-Library.AList"
begin

unbundle bit_operations_syntax

section \<open>Values of the program\<close>

text \<open>
  The program is \<^verbatim>\<open>src/code/app.py\<close>: a Flask endpoint that fingerprints an uploaded
  document and a job description, looks the fingerprint up in a cache (Redis, or a dict of
  the process), and on a miss extracts the text of the PDF, asks a remote model for an
  analysis, cleans the answer into JSON, stores it and returns it.

  A Python \<^verbatim>\<open>bytes\<close> object is a list of 8-bit words. A Python \<^verbatim>\<open>str\<close> is a list of
  Unicode code points (natural numbers below \<^verbatim>\<open>0x110000\<close>), so that encoding to UTF-8, the
  whitespace of \<^verbatim>\<open>str.strip\<close> and characters outside ASCII are what they are in Python.
\<close>

type_synonym byte = "8 word"
type_synonym bytes = "byte list"
type_synonym str = "nat list"

definition lit :: "string \<Rightarrow> str" where
  "lit s = map of_char s"

text \<open>
  Exceptions are values. Every exception the program meets is an instance of Python's
  \<^verbatim>\<open>Exception\<close>, so \<^verbatim>\<open>except Exception\<close> and a bare \<^verbatim>\<open>except\<close> catch the same ones.
  The text carried is \<^verbatim>\<open>str(e)\<close>; for exceptions raised inside a library it is the
  leading phrase of the library's message.
\<close>

datatype exn_class =
    PlainException | AttributeError | TypeError | KeyError | IndexError
  | JSONDecodeError | UnicodeEncodeError | RecursionError | RedisError | RequestsError | PdfError

datatype exn = Exn exn_class str

fun str_exn :: "exn \<Rightarrow> str" where
  "str_exn (Exn c m) = m"

section \<open>hashlib.md5\<close>

text \<open>
  \<^verbatim>\<open>hashlib.md5(data).hexdigest()\<close> is the MD5 message digest of RFC 1321, printed as 32
  lowercase hexadecimal digits. The four state words and the message words are 32-bit
  little-endian; additions wrap.
\<close>

type_synonym u32 = "32 word"
type_synonym md5_state = "u32 \<times> u32 \<times> u32 \<times> u32"

definition md5_K :: "u32 list" where
  "md5_K =
    [0xd76aa478, 0xe8c7b756, 0x242070db, 0xc1bdceee, 0xf57c0faf, 0x4787c62a, 0xa8304613, 0xfd469501,
     0x698098d8, 0x8b44f7af, 0xffff5bb1, 0x895cd7be, 0x6b901122, 0xfd987193, 0xa679438e, 0x49b40821,
     0xf61e2562, 0xc040b340, 0x265e5a51, 0xe9b6c7aa, 0xd62f105d, 0x02441453, 0xd8a1e681, 0xe7d3fbc8,
     0x21e1cde6, 0xc33707d6, 0xf4d50d87, 0x455a14ed, 0xa9e3e905, 0xfcefa3f8, 0x676f02d9, 0x8d2a4c8a,
     0xfffa3942, 0x8771f681, 0x6d9d6122, 0xfde5380c, 0xa4beea44, 0x4bdecfa9, 0xf6bb4b60, 0xbebfbc70,
     0x289b7ec6, 0xeaa127fa, 0xd4ef3085, 0x04881d05, 0xd9d4d039, 0xe6db99e5, 0x1fa27cf8, 0xc4ac5665,
     0xf4292244, 0x432aff97, 0xab9423a7, 0xfc93a039, 0x655b59c3, 0x8f0ccc92, 0xffeff47d, 0x85845dd1,
     0x6fa87e4f, 0xfe2ce6e0, 0xa3014314, 0x4e0811a1, 0xf7537e82, 0xbd3af235, 0x2ad7d2bb, 0xeb86d391]"

definition md5_S :: "nat list" where
  "md5_S =
    [7, 12, 17, 22, 7, 12, 17, 22, 7, 12, 17, 22, 7, 12, 17, 22,
     5, 9, 14, 20, 5, 9, 14, 20, 5, 9, 14, 20, 5, 9, 14, 20,
     4, 11, 16, 23, 4, 11, 16, 23, 4, 11, 16, 23, 4, 11, 16, 23,
     6, 10, 15, 21, 6, 10, 15, 21, 6, 10, 15, 21, 6, 10, 15, 21]"

definition rotl32 :: "u32 \<Rightarrow> nat \<Rightarrow> u32" where
  "rotl32 x n = push_bit n x OR drop_bit (32 - n) x"

fun md5_step :: "u32 list \<Rightarrow> md5_state \<Rightarrow> nat \<Rightarrow> md5_state" where
  "md5_step M (a, b, c, d) i =
     (let (f, g) =
        (if i < 16 then ((b AND c) OR (NOT b AND d), i)
         else if i < 32 then ((d AND b) OR (NOT d AND c), (5 * i + 1) mod 16)
         else if i < 48 then (b XOR c XOR d, (3 * i + 5) mod 16)
         else (c XOR (b OR NOT d), (7 * i) mod 16))
      in (d, b + rotl32 (a + f + md5_K ! i + M ! g) (md5_S ! i), b, c))"

definition le32 :: "bytes \<Rightarrow> u32" where
  "le32 bs = foldr (\<lambda>b w. ucast b OR push_bit 8 w) bs 0"

fun chunks :: "nat \<Rightarrow> 'a list \<Rightarrow> 'a list list" where
  "chunks n [] = []"
| "chunks n xs = (if n = 0 then [xs] else take n xs # chunks n (drop n xs))"

definition md5_block :: "md5_state \<Rightarrow> bytes \<Rightarrow> md5_state" where
  "md5_block st blk =
     (let M = map le32 (chunks 4 blk);
          (a0, b0, c0, d0) = st;
          (a, b, c, d) = foldl (md5_step M) st [0..<64]
      in (a0 + a, b0 + b, c0 + c, d0 + d))"

definition bytes_le :: "nat \<Rightarrow> 'a::len word \<Rightarrow> bytes" where
  "bytes_le n w = map (\<lambda>i. ucast (drop_bit (8 * i) w)) [0..<n]"

definition md5_pad :: "bytes \<Rightarrow> bytes" where
  "md5_pad m =
     m @ [0x80] @ replicate ((119 - length m mod 64) mod 64) 0
       @ bytes_le 8 (8 * of_nat (length m) :: 64 word)"

definition md5 :: "bytes \<Rightarrow> bytes" where
  "md5 m =
     (let (a, b, c, d) =
        foldl md5_block (0x67452301, 0xefcdab89, 0x98badcfe, 0x10325476) (chunks 64 (md5_pad m))
      in bytes_le 4 a @ bytes_le 4 b @ bytes_le 4 c @ bytes_le 4 d)"

definition hex_digit :: "nat \<Rightarrow> nat" where
  "hex_digit n = (if n < 10 then 48 + n else 87 + n)"

fun hexdigest :: "bytes \<Rightarrow> str" where
  "hexdigest [] = []"
| "hexdigest (b # bs) =
     hex_digit (unat (drop_bit 4 b)) # hex_digit (unat (b AND 15)) # hexdigest bs"

section \<open>str.encode('utf-8')\<close>

text \<open>
  Python refuses to encode a lone surrogate (\<^verbatim>\<open>U+D800\<close> to \<^verbatim>\<open>U+DFFF\<close>):
  \<^verbatim>\<open>'\ud800'.encode('utf-8')\<close> raises \<^verbatim>\<open>UnicodeEncodeError\<close>. A number from
  \<^verbatim>\<open>0x110000\<close> on is not a code point of a Python string; the model refuses it too.
\<close>

definition utf8_char :: "nat \<Rightarrow> exn + bytes" where
  "utf8_char c =
     (if c < 0x80 then Inr [of_nat c]
      else if c < 0x800 then Inr [of_nat (0xC0 + c div 64), of_nat (0x80 + c mod 64)]
      else if 0xD800 \<le> c \<and> c < 0xE000 then
        Inl (Exn UnicodeEncodeError (lit ''surrogates not allowed''))
      else if c < 0x10000 then
        Inr [of_nat (0xE0 + c div 4096), of_nat (0x80 + c div 64 mod 64), of_nat (0x80 + c mod 64)]
      else if c < 0x110000 then
        Inr [of_nat (0xF0 + c div 262144), of_nat (0x80 + c div 4096 mod 64),
             of_nat (0x80 + c div 64 mod 64), of_nat (0x80 + c mod 64)]
      else Inl (Exn UnicodeEncodeError (lit ''not a code point'')))"

fun utf8_encode :: "str \<Rightarrow> exn + bytes" where
  "utf8_encode [] = Inr []"
| "utf8_encode (c # cs) =
     (case utf8_char c of
        Inl e \<Rightarrow> Inl e
      | Inr bs \<Rightarrow> (case utf8_encode cs of Inl e \<Rightarrow> Inl e | Inr rest \<Rightarrow> Inr (bs @ rest)))"

section \<open>CacheManager.generate_key\<close>

text \<open>
  \<^verbatim>\<open>
  def generate_key(self, file_bytes, jd_text):
      content_hash = hashlib.md5(file_bytes).hexdigest()
      jd_hash = hashlib.md5(jd_text.encode('utf-8')).hexdigest()
      return f"resume:v3:{content_hash}:{jd_hash}"
  \<close>
\<close>

definition generate_key :: "bytes \<Rightarrow> str \<Rightarrow> exn + str" where
  "generate_key file_bytes jd_text =
     (let content_hash = hexdigest (md5 file_bytes) in
      case utf8_encode jd_text of
        Inl e \<Rightarrow> Inl e
      | Inr encoded \<Rightarrow>
          (let jd_hash = hexdigest (md5 encoded)
           in Inr (lit ''resume:v3:'' @ content_hash @ lit '':'' @ jd_hash)))"

text \<open>
  Two documents of 128 bytes each, published by Wang and Yu (2005). They differ in six
  bytes.
\<close>

definition wang1 :: bytes where
  "wang1 =
    [0xd1, 0x31, 0xdd, 0x02, 0xc5, 0xe6, 0xee, 0xc4, 0x69, 0x3d, 0x9a, 0x06, 0x98, 0xaf, 0xf9, 0x5c,
     0x2f, 0xca, 0xb5, 0x87, 0x12, 0x46, 0x7e, 0xab, 0x40, 0x04, 0x58, 0x3e, 0xb8, 0xfb, 0x7f, 0x89,
     0x55, 0xad, 0x34, 0x06, 0x09, 0xf4, 0xb3, 0x02, 0x83, 0xe4, 0x88, 0x83, 0x25, 0x71, 0x41, 0x5a,
     0x08, 0x51, 0x25, 0xe8, 0xf7, 0xcd, 0xc9, 0x9f, 0xd9, 0x1d, 0xbd, 0xf2, 0x80, 0x37, 0x3c, 0x5b,
     0xd8, 0x82, 0x3e, 0x31, 0x56, 0x34, 0x8f, 0x5b, 0xae, 0x6d, 0xac, 0xd4, 0x36, 0xc9, 0x19, 0xc6,
     0xdd, 0x53, 0xe2, 0xb4, 0x87, 0xda, 0x03, 0xfd, 0x02, 0x39, 0x63, 0x06, 0xd2, 0x48, 0xcd, 0xa0,
     0xe9, 0x9f, 0x33, 0x42, 0x0f, 0x57, 0x7e, 0xe8, 0xce, 0x54, 0xb6, 0x70, 0x80, 0xa8, 0x0d, 0x1e,
     0xc6, 0x98, 0x21, 0xbc, 0xb6, 0xa8, 0x83, 0x93, 0x96, 0xf9, 0x65, 0x2b, 0x6f, 0xf7, 0x2a, 0x70]"

definition wang2 :: bytes where
  "wang2 =
    [0xd1, 0x31, 0xdd, 0x02, 0xc5, 0xe6, 0xee, 0xc4, 0x69, 0x3d, 0x9a, 0x06, 0x98, 0xaf, 0xf9, 0x5c,
     0x2f, 0xca, 0xb5, 0x07, 0x12, 0x46, 0x7e, 0xab, 0x40, 0x04, 0x58, 0x3e, 0xb8, 0xfb, 0x7f, 0x89,
     0x55, 0xad, 0x34, 0x06, 0x09, 0xf4, 0xb3, 0x02, 0x83, 0xe4, 0x88, 0x83, 0x25, 0xf1, 0x41, 0x5a,
     0x08, 0x51, 0x25, 0xe8, 0xf7, 0xcd, 0xc9, 0x9f, 0xd9, 0x1d, 0xbd, 0x72, 0x80, 0x37, 0x3c, 0x5b,
     0xd8, 0x82, 0x3e, 0x31, 0x56, 0x34, 0x8f, 0x5b, 0xae, 0x6d, 0xac, 0xd4, 0x36, 0xc9, 0x19, 0xc6,
     0xdd, 0x53, 0xe2, 0x34, 0x87, 0xda, 0x03, 0xfd, 0x02, 0x39, 0x63, 0x06, 0xd2, 0x48, 0xcd, 0xa0,
     0xe9, 0x9f, 0x33, 0x42, 0x0f, 0x57, 0x7e, 0xe8, 0xce, 0x54, 0xb6, 0x70, 0x80, 0x28, 0x0d, 0x1e,
     0xc6, 0x98, 0x21, 0xbc, 0xb6, 0xa8, 0x83, 0x93, 0x96, 0xf9, 0x65, 0xab, 0x6f, 0xf7, 0x2a, 0x70]"

definition is_hex_char :: "nat \<Rightarrow> bool" where
  "is_hex_char c = ((48 \<le> c \<and> c \<le> 57) \<or> (97 \<le> c \<and> c \<le> 102))"

definition pdf_magic :: bytes where
  "pdf_magic = [0x25, 0x50, 0x44, 0x46]"

definition key_example :: str where
  "key_example = lit ''resume:v3:bfa4b10a76324b166cfdad5e02a63730:e77989ed21758e78331b20e477fc5582''"

section \<open>JSON values\<close>

text \<open>
  What \<^verbatim>\<open>json.loads\<close> returns: \<^verbatim>\<open>None\<close>, a bool, an int, a float, a str, a list or a
  dict with string keys. A dict keeps its keys in insertion order and has each key once; it
  is the association list of its items. A float is an IEEE 754 double: \<open>Finite neg m e\<close>
  is \<open>m\<close> times two to the \<open>e\<close>, with a minus sign when \<open>neg\<close>; a double other than zero
  has \<open>m\<close> below \<open>2 ^ 53\<close> and \<open>e\<close> from \<open>- 1074\<close> to \<open>971\<close>, with \<open>m\<close> at least \<open>2 ^ 52\<close>
  unless \<open>e\<close> is \<open>- 1074\<close>; zero is \<open>Finite neg 0 0\<close>.
\<close>

datatype pyfloat = Finite bool nat int | Infinity bool | NaN

datatype json =
    JNull | JBool bool | JInt int | JFloat pyfloat | JStr str
  | JArr "json list" | JObj "(str \<times> json) list"

section \<open>json.loads\<close>

text \<open>
  The decoder of the standard library (\<^verbatim>\<open>json/decoder.py\<close>, \<^verbatim>\<open>json/scanner.py\<close>) with its
  default options: whitespace is space, tab, line feed and carriage return; strings are
  scanned in strict mode; \<^verbatim>\<open>NaN\<close>, \<^verbatim>\<open>Infinity\<close> and \<^verbatim>\<open>-Infinity\<close> are accepted; a repeated
  key keeps its first position and its last value. Each function takes the text that is
  left and returns the value with the rest. The first argument of the three parsers of
  nested values bounds the number of nested calls; \<open>json_loads\<close> passes more than
  twice the length of the text, which is never used up (each nested call but the first of
  an array has read a character). The recursion limit of the interpreter is
  not modelled.
\<close>

definition json_error :: "string \<Rightarrow> exn" where
  "json_error m = Exn JSONDecodeError (lit m)"

definition is_ws :: "nat \<Rightarrow> bool" where
  "is_ws c = (c = 32 \<or> c = 9 \<or> c = 10 \<or> c = 13)"

definition skip_ws :: "str \<Rightarrow> str" where
  "skip_ws s = dropWhile is_ws s"

definition is_digit :: "nat \<Rightarrow> bool" where
  "is_digit c = (48 \<le> c \<and> c \<le> 57)"

definition nat_of_digits :: "str \<Rightarrow> nat" where
  "nat_of_digits ds = foldl (\<lambda>a d. 10 * a + (d - 48)) 0 ds"

definition hex_value :: "nat \<Rightarrow> nat option" where
  "hex_value c =
     (if 48 \<le> c \<and> c \<le> 57 then Some (c - 48)
      else if 97 \<le> c \<and> c \<le> 102 then Some (c - 87)
      else if 65 \<le> c \<and> c \<le> 70 then Some (c - 55)
      else None)"

definition decode_uXXXX :: "str \<Rightarrow> nat option" where
  "decode_uXXXX s =
     (case map hex_value (take 4 s) of
        [Some a, Some b, Some c, Some d] \<Rightarrow> Some (((a * 16 + b) * 16 + c) * 16 + d)
      | _ \<Rightarrow> None)"

definition backslash_escape :: "nat \<Rightarrow> nat option" where
  "backslash_escape c =
     (if c = 34 then Some 34 else if c = 92 then Some 92 else if c = 47 then Some 47
      else if c = 98 then Some 8 else if c = 102 then Some 12 else if c = 110 then Some 10
      else if c = 114 then Some 13 else if c = 116 then Some 9 else None)"

function scanstring :: "str \<Rightarrow> exn + str \<times> str" where
  "scanstring [] = Inl (json_error ''Unterminated string starting at'')"
| "scanstring (c # cs) =
     (if c = 34 then Inr ([], cs)
      else if c = 92 then
        (case cs of
           [] \<Rightarrow> Inl (json_error ''Unterminated string starting at'')
         | esc # r \<Rightarrow>
             if esc = 117 then
               (case decode_uXXXX r of
                  None \<Rightarrow> Inl (Exn JSONDecodeError (lit ''Invalid '' @ [92] @ lit ''uXXXX escape''))
                | Some uni \<Rightarrow>
                    (let r1 = drop 4 r in
                     if 0xD800 \<le> uni \<and> uni \<le> 0xDBFF \<and> take 2 r1 = [92, 117] then
                       (case decode_uXXXX (drop 2 r1) of
                          None \<Rightarrow> Inl (Exn JSONDecodeError (lit ''Invalid '' @ [92] @ lit ''uXXXX escape''))
                        | Some uni2 \<Rightarrow>
                            if 0xDC00 \<le> uni2 \<and> uni2 \<le> 0xDFFF then
                              (case scanstring (drop 6 r1) of
                                 Inl e \<Rightarrow> Inl e
                               | Inr (x, rest) \<Rightarrow>
                                   Inr ((0x10000 + (uni - 0xD800) * 1024 + (uni2 - 0xDC00)) # x, rest))
                            else
                              (case scanstring r1 of
                                 Inl e \<Rightarrow> Inl e
                               | Inr (x, rest) \<Rightarrow> Inr (uni # x, rest)))
                     else
                       (case scanstring r1 of
                          Inl e \<Rightarrow> Inl e
                        | Inr (x, rest) \<Rightarrow> Inr (uni # x, rest))))
             else
               (case backslash_escape esc of
                  None \<Rightarrow> Inl (Exn JSONDecodeError (lit ''Invalid '' @ [92] @ lit ''escape''))
                | Some ch \<Rightarrow>
                    (case scanstring r of
                       Inl e \<Rightarrow> Inl e
                     | Inr (x, rest) \<Rightarrow> Inr (ch # x, rest))))
      else if c < 32 then Inl (json_error ''Invalid control character at'')
      else
        (case scanstring cs of
           Inl e \<Rightarrow> Inl e
         | Inr (x, rest) \<Rightarrow> Inr (c # x, rest)))"
  by pat_completeness auto
termination
  by (relation "measure length") auto

text \<open>The number pattern of the scanner:
  \<^verbatim>\<open>(-?(?:0|[1-9][0-9]*))(\.[0-9]+)?([eE][-+]?[0-9]+)?\<close>.\<close>

definition match_int_part :: "str \<Rightarrow> (str \<times> str) option" where
  "match_int_part s =
     (case s of
        [] \<Rightarrow> None
      | c # cs \<Rightarrow>
          if c = 48 then Some ([48], cs)
          else if is_digit c then Some (takeWhile is_digit s, dropWhile is_digit s)
          else None)"

definition match_frac :: "str \<Rightarrow> str \<times> str" where
  "match_frac s =
     (case s of
        c # d # cs \<Rightarrow>
          if c = 46 \<and> is_digit d then (takeWhile is_digit (d # cs), dropWhile is_digit (d # cs))
          else ([], s)
      | _ \<Rightarrow> ([], s))"

definition match_exp :: "str \<Rightarrow> (int \<times> str) option" where
  "match_exp s =
     (case s of
        [] \<Rightarrow> None
      | c # cs \<Rightarrow>
          if c = 101 \<or> c = 69 then
            (case cs of
               [] \<Rightarrow> None
             | d # ds \<Rightarrow>
                 if is_digit d then
                   Some (int (nat_of_digits (takeWhile is_digit cs)), dropWhile is_digit cs)
                 else if (d = 43 \<or> d = 45) \<and> ds \<noteq> [] \<and> is_digit (hd ds) then
                   Some ((if d = 45 then - 1 else 1) * int (nat_of_digits (takeWhile is_digit ds)),
                         dropWhile is_digit ds)
                 else None)
          else None)"

text \<open>
  \<^verbatim>\<open>float(literal)\<close>: the double nearest to the decimal \<open>m\<close> times ten to the \<open>e\<close>, ties
  to the even mantissa. \<open>n\<close> over \<open>d\<close> is the decimal as a fraction. At or below half of
  the least subnormal it rounds to zero; from \<open>2 ^ 1024 - 2 ^ 970\<close> on it overflows to
  infinity; in between, \<open>k\<close> is the exponent of the double and the mantissa the rounded
  quotient.
\<close>

definition round_half_even :: "nat \<Rightarrow> nat \<Rightarrow> nat" where
  "round_half_even n d =
     (let q = n div d; r = n mod d
      in if 2 * r < d then q else if d < 2 * r then q + 1 else if even q then q else q + 1)"

function bit_length :: "nat \<Rightarrow> nat" where
  "bit_length n = (if n = 0 then 0 else Suc (bit_length (n div 2)))"
  by pat_completeness auto
termination
  by (relation "measure id") auto

declare bit_length.simps [simp del]

text \<open>The integer part of the binary logarithm of \<open>n\<close> over \<open>d\<close>, both positive.\<close>

definition ilog2 :: "nat \<Rightarrow> nat \<Rightarrow> int" where
  "ilog2 n d =
     (let l = int (bit_length n) - int (bit_length d)
      in if d * 2 ^ nat l \<le> n * 2 ^ nat (- l) then l else l - 1)"

definition float_of_decimal :: "bool \<Rightarrow> nat \<Rightarrow> int \<Rightarrow> pyfloat" where
  "float_of_decimal neg m e =
     (let n = m * 10 ^ nat e; d = 10 ^ nat (- e)
      in if n * 2 ^ 1075 \<le> d then Finite neg 0 0
         else if (2 ^ 1024 - 2 ^ 970) * d \<le> n then Infinity neg
         else
           (let k = max (ilog2 n d - 52) (- 1074);
                mant = round_half_even (n * 2 ^ nat (- k)) (d * 2 ^ nat k)
            in if mant = 2 ^ 53 then Finite neg (2 ^ 52) (k + 1) else Finite neg mant k))"

definition match_number :: "str \<Rightarrow> (json \<times> str) option" where
  "match_number s =
     (let neg = (take 1 s = [45]);
          s1 = (if neg then drop 1 s else s)
      in case match_int_part s1 of
           None \<Rightarrow> None
         | Some (ip, r1) \<Rightarrow>
             (let (fp, r2) = match_frac r1 in
              case match_exp r2 of
                None \<Rightarrow>
                  if fp = [] then
                    Some (JInt ((if neg then - 1 else 1) * int (nat_of_digits ip)), r2)
                  else
                    Some (JFloat (float_of_decimal neg (nat_of_digits (ip @ fp)) (- int (length fp))),
                          r2)
              | Some (ex, r3) \<Rightarrow>
                  Some (JFloat (float_of_decimal neg (nat_of_digits (ip @ fp)) (ex - int (length fp))),
                        r3)))"

definition dict_of_pairs :: "(str \<times> json) list \<Rightarrow> (str \<times> json) list" where
  "dict_of_pairs ps = foldl (\<lambda>d (k, v). AList.update k v d) [] ps"

fun parse_value :: "nat \<Rightarrow> str \<Rightarrow> exn + json \<times> str"
  and parse_elems :: "nat \<Rightarrow> str \<Rightarrow> exn + json list \<times> str"
  and parse_members :: "nat \<Rightarrow> str \<Rightarrow> exn + (str \<times> json) list \<times> str"
where
  "parse_value 0 s = Inl (Exn RecursionError (lit ''maximum recursion depth exceeded''))"
| "parse_value (Suc n) s =
     (case s of
        [] \<Rightarrow> Inl (json_error ''Expecting value'')
      | c # cs \<Rightarrow>
          if c = 34 then
            (case scanstring cs of Inl e \<Rightarrow> Inl e | Inr (x, r) \<Rightarrow> Inr (JStr x, r))
          else if c = 123 then
            (case skip_ws cs of
               [] \<Rightarrow> Inl (json_error ''Expecting property name enclosed in double quotes'')
             | d # ds \<Rightarrow>
                 if d = 125 then Inr (JObj [], ds)
                 else if d = 34 then
                   (case parse_members n ds of
                      Inl e \<Rightarrow> Inl e
                    | Inr (ps, r) \<Rightarrow> Inr (JObj (dict_of_pairs ps), r))
                 else Inl (json_error ''Expecting property name enclosed in double quotes''))
          else if c = 91 then
            (case skip_ws cs of
               [] \<Rightarrow> Inl (json_error ''Expecting value'')
             | d # ds \<Rightarrow>
                 if d = 93 then Inr (JArr [], ds)
                 else
                   (case parse_elems n (d # ds) of
                      Inl e \<Rightarrow> Inl e
                    | Inr (vs, r) \<Rightarrow> Inr (JArr vs, r)))
          else if take 4 s = lit ''null'' then Inr (JNull, drop 4 s)
          else if take 4 s = lit ''true'' then Inr (JBool True, drop 4 s)
          else if take 5 s = lit ''false'' then Inr (JBool False, drop 5 s)
          else
            (case match_number s of
               Some r \<Rightarrow> Inr r
             | None \<Rightarrow>
                 if take 3 s = lit ''NaN'' then Inr (JFloat NaN, drop 3 s)
                 else if take 8 s = lit ''Infinity'' then Inr (JFloat (Infinity False), drop 8 s)
                 else if take 9 s = lit ''-Infinity'' then Inr (JFloat (Infinity True), drop 9 s)
                 else Inl (json_error ''Expecting value'')))"
| "parse_elems 0 s = Inl (Exn RecursionError (lit ''maximum recursion depth exceeded''))"
| "parse_elems (Suc n) s =
     (case parse_value n s of
        Inl e \<Rightarrow> Inl e
      | Inr (v, r) \<Rightarrow>
          (case skip_ws r of
             [] \<Rightarrow> Inl (json_error ''Expecting , delimiter'')
           | c # cs \<Rightarrow>
               if c = 93 then Inr ([v], cs)
               else if c = 44 then
                 (case parse_elems n (skip_ws cs) of
                    Inl e \<Rightarrow> Inl e
                  | Inr (vs, r') \<Rightarrow> Inr (v # vs, r'))
               else Inl (json_error ''Expecting , delimiter'')))"
| "parse_members 0 s = Inl (Exn RecursionError (lit ''maximum recursion depth exceeded''))"
| "parse_members (Suc n) s =
     (case scanstring s of
        Inl e \<Rightarrow> Inl e
      | Inr (key, r) \<Rightarrow>
          (case skip_ws r of
             [] \<Rightarrow> Inl (json_error ''Expecting : delimiter'')
           | c # cs \<Rightarrow>
               if c \<noteq> 58 then Inl (json_error ''Expecting : delimiter'')
               else
                 (case parse_value n (skip_ws cs) of
                    Inl e \<Rightarrow> Inl e
                  | Inr (v, r1) \<Rightarrow>
                      (case skip_ws r1 of
                         [] \<Rightarrow> Inl (json_error ''Expecting , delimiter'')
                       | d # ds \<Rightarrow>
                           if d = 125 then Inr ([(key, v)], ds)
                           else if d = 44 then
                             (case skip_ws ds of
                                [] \<Rightarrow> Inl (json_error ''Expecting property name enclosed in double quotes'')
                              | q # qs \<Rightarrow>
                                  if q = 34 then
                                    (case parse_members n qs of
                                       Inl e \<Rightarrow> Inl e
                                     | Inr (ps, r2) \<Rightarrow> Inr ((key, v) # ps, r2))
                                  else Inl (json_error ''Expecting property name enclosed in double quotes''))
                           else Inl (json_error ''Expecting , delimiter'')))))"

definition json_loads :: "str \<Rightarrow> exn + json" where
  "json_loads s =
     (if take 1 s = [0xFEFF] then Inl (json_error ''Unexpected UTF-8 BOM (decode using utf-8-sig)'')
      else
        (case parse_value (Suc (2 * length s)) (skip_ws s) of
           Inl e \<Rightarrow> Inl e
         | Inr (v, r) \<Rightarrow> if skip_ws r = [] then Inr v else Inl (json_error ''Extra data'')))"

section \<open>json.dumps\<close>

text \<open>
  \<^verbatim>\<open>json.dumps(data, ensure_ascii=False)\<close>: items are separated by a comma and a space, a
  key from its value by a colon and a space; in a string only the quote, the backslash
  and the control characters below \<^verbatim>\<open>0x20\<close> are escaped. A float is printed as
  \<^verbatim>\<open>float.__repr__\<close> prints it: the fewest digits that read back as the same double (of
  two such decimals the nearer one), in exponent notation when the decimal point would
  stand more than 16 places to the right or more than 3 zeros to the left.
\<close>

function digits_of_nat :: "nat \<Rightarrow> str" where
  "digits_of_nat n = (if n < 10 then [48 + n] else digits_of_nat (n div 10) @ [48 + n mod 10])"
  by pat_completeness auto
termination
  by (relation "measure id") auto

declare digits_of_nat.simps [simp del]

definition show_int :: "int \<Rightarrow> str" where
  "show_int i = (if i < 0 then 45 # digits_of_nat (nat (- i)) else digits_of_nat (nat i))"

text \<open>The integer part of the decimal logarithm of \<open>n\<close> over \<open>d\<close>, both positive.\<close>

definition ilog10 :: "nat \<Rightarrow> nat \<Rightarrow> int" where
  "ilog10 n d =
     (let est = (ilog2 n d * 1233) div 4096;
          ge = (\<lambda>p. d * 10 ^ nat p \<le> n * 10 ^ nat (- p))
      in if ge (est + 1) then est + 1 else if ge est then est else est - 1)"

text \<open>
  The decimal of \<open>n\<close> digits next to the double \<open>m\<close> times two to the \<open>e\<close> (below it or above
  it, the nearer first), when it reads back as that double.
\<close>

definition digits_try :: "bool \<Rightarrow> nat \<Rightarrow> int \<Rightarrow> nat \<Rightarrow> (nat \<times> int) option" where
  "digits_try neg m e n =
     (let nx = m * 2 ^ nat e; dx = 2 ^ nat (- e);
          p = ilog10 nx dx - (int n - 1);
          num = nx * 10 ^ nat (- p); den = dx * 10 ^ nat p;
          lo = num div den; hi = lo + 1;
          lo_ok = (float_of_decimal neg lo p = Finite neg m e);
          hi_ok = (float_of_decimal neg hi p = Finite neg m e);
          lo_nearer = (2 * num < (2 * lo + 1) * den \<or> (2 * num = (2 * lo + 1) * den \<and> even lo))
      in if lo_ok \<and> (lo_nearer \<or> \<not> hi_ok) then Some (lo, p)
         else if hi_ok then Some (hi, p)
         else None)"

fun shortest_digits :: "bool \<Rightarrow> nat \<Rightarrow> int \<Rightarrow> nat list \<Rightarrow> (nat \<times> int) option" where
  "shortest_digits neg m e [] = None"
| "shortest_digits neg m e (n # ns) =
     (case digits_try neg m e n of
        Some r \<Rightarrow> Some r
      | None \<Rightarrow> shortest_digits neg m e ns)"

function strip_zeros :: "nat \<Rightarrow> int \<Rightarrow> nat \<times> int" where
  "strip_zeros c p = (if c \<noteq> 0 \<and> c mod 10 = 0 then strip_zeros (c div 10) (p + 1) else (c, p))"
  by pat_completeness auto
termination
  by (relation "measure fst") auto

declare strip_zeros.simps [simp del]

text \<open>The digits \<open>ds\<close> with the decimal point \<open>decpt\<close> places to the right of their start.\<close>

definition format_float :: "str \<Rightarrow> int \<Rightarrow> str" where
  "format_float ds decpt =
     (if decpt \<le> - 4 \<or> 16 < decpt then
        (let ex = decpt - 1; exd = digits_of_nat (nat \<bar>ex\<bar>)
         in take 1 ds @ (if length ds > 1 then 46 # drop 1 ds else [])
            @ [101, if ex < 0 then 45 else 43] @ (if length exd < 2 then 48 # exd else exd))
      else if decpt \<le> 0 then lit ''0.'' @ replicate (nat (- decpt)) 48 @ ds
      else if int (length ds) \<le> decpt then ds @ replicate (nat decpt - length ds) 48 @ lit ''.0''
      else take (nat decpt) ds @ 46 # drop (nat decpt) ds)"

text \<open>
  Seventeen digits always suffice for a double, so the search below finds its digits; for
  a triple \<open>Finite neg m e\<close> that is no double and finds none, the integer part is printed.
\<close>

fun float_repr :: "pyfloat \<Rightarrow> str" where
  "float_repr (Finite neg m e) =
     (if neg then [45] else []) @
     (if m = 0 then lit ''0.0''
      else
        (case shortest_digits neg m e [1..<18] of
           Some (c, p) \<Rightarrow>
             (case strip_zeros c p of
                (c', p') \<Rightarrow> format_float (digits_of_nat c') (p' + int (length (digits_of_nat c'))))
         | None \<Rightarrow> digits_of_nat (m * 2 ^ nat e div 2 ^ nat (- e)) @ lit ''.0''))"
| "float_repr (Infinity neg) = (if neg then lit ''-Infinity'' else lit ''Infinity'')"
| "float_repr NaN = lit ''NaN''"

definition escape_char :: "nat \<Rightarrow> str" where
  "escape_char c =
     (if c = 34 then [92, 34] else if c = 92 then [92, 92]
      else if c = 10 then [92, 110] else if c = 13 then [92, 114] else if c = 9 then [92, 116]
      else if c = 8 then [92, 98] else if c = 12 then [92, 102]
      else if c < 32 then [92, 117, 48, 48, hex_digit (c div 16), hex_digit (c mod 16)]
      else [c])"

definition encode_basestring :: "str \<Rightarrow> str" where
  "encode_basestring s = 34 # concat (map escape_char s) @ [34]"

fun json_dumps :: "json \<Rightarrow> str"
  and dumps_elems :: "json list \<Rightarrow> str"
  and dumps_members :: "(str \<times> json) list \<Rightarrow> str"
where
  "json_dumps JNull = lit ''null''"
| "json_dumps (JBool b) = (if b then lit ''true'' else lit ''false'')"
| "json_dumps (JInt i) = show_int i"
| "json_dumps (JFloat f) = float_repr f"
| "json_dumps (JStr s) = encode_basestring s"
| "json_dumps (JArr vs) = (if vs = [] then lit ''[]'' else 91 # dumps_elems vs)"
| "json_dumps (JObj kvs) = (if kvs = [] then lit ''{}'' else 123 # dumps_members kvs)"
| "dumps_elems [] = [93]"
| "dumps_elems (v # vs) =
     json_dumps v @ (if vs = [] then [93] else lit '', '' @ dumps_elems vs)"
| "dumps_members [] = [125]"
| "dumps_members (kv # kvs) =
     encode_basestring (fst kv) @ lit '': '' @ json_dumps (snd kv)
       @ (if kvs = [] then [125] else lit '', '' @ dumps_members kvs)"

section \<open>Python values the program tests and indexes\<close>

fun truthy :: "json \<Rightarrow> bool" where
  "truthy JNull = False"
| "truthy (JBool b) = b"
| "truthy (JInt i) = (i \<noteq> 0)"
| "truthy (JFloat (Finite neg m e)) = (m \<noteq> 0)"
| "truthy (JFloat (Infinity neg)) = True"
| "truthy (JFloat NaN) = True"
| "truthy (JStr s) = (s \<noteq> [])"
| "truthy (JArr vs) = (vs \<noteq> [])"
| "truthy (JObj kvs) = (kvs \<noteq> [])"

fun type_name :: "json \<Rightarrow> str" where
  "type_name JNull = lit ''NoneType''"
| "type_name (JBool b) = lit ''bool''"
| "type_name (JInt i) = lit ''int''"
| "type_name (JFloat f) = lit ''float''"
| "type_name (JStr s) = lit ''str''"
| "type_name (JArr vs) = lit ''list''"
| "type_name (JObj kvs) = lit ''dict''"

definition squote :: "str \<Rightarrow> str" where
  "squote s = [39] @ s @ [39]"

text \<open>\<^verbatim>\<open>obj[key]\<close> with a string key, and \<^verbatim>\<open>obj[0]\<close>.\<close>

fun getitem_key :: "json \<Rightarrow> str \<Rightarrow> exn + json" where
  "getitem_key (JObj kvs) k =
     (case map_of kvs k of
        Some v \<Rightarrow> Inr v
      | None \<Rightarrow> Inl (Exn KeyError (squote k)))"
| "getitem_key (JArr vs) k =
     Inl (Exn TypeError (lit ''list indices must be integers or slices, not str''))"
| "getitem_key (JStr s) k =
     Inl (Exn TypeError (lit ''string indices must be integers, not '' @ squote (lit ''str'')))"
| "getitem_key v k =
     Inl (Exn TypeError (squote (type_name v) @ lit '' object is not subscriptable''))"

fun getitem_0 :: "json \<Rightarrow> exn + json" where
  "getitem_0 (JArr vs) =
     (case vs of
        [] \<Rightarrow> Inl (Exn IndexError (lit ''list index out of range''))
      | v # _ \<Rightarrow> Inr v)"
| "getitem_0 (JObj kvs) = Inl (Exn KeyError (lit ''0''))"
| "getitem_0 (JStr s) =
     (case s of
        [] \<Rightarrow> Inl (Exn IndexError (lit ''string index out of range''))
      | c # _ \<Rightarrow> Inr (JStr [c]))"
| "getitem_0 v =
     Inl (Exn TypeError (squote (type_name v) @ lit '' object is not subscriptable''))"

section \<open>Python strings\<close>

text \<open>The characters \<^verbatim>\<open>str.isspace\<close> accepts, which \<^verbatim>\<open>str.strip()\<close> removes at both ends.\<close>

definition py_isspace :: "nat \<Rightarrow> bool" where
  "py_isspace c =
     ((9 \<le> c \<and> c \<le> 13) \<or> (28 \<le> c \<and> c \<le> 32) \<or> c = 0x85 \<or> c = 0xA0 \<or> c = 0x1680
      \<or> (0x2000 \<le> c \<and> c \<le> 0x200A) \<or> c = 0x2028 \<or> c = 0x2029 \<or> c = 0x202F
      \<or> c = 0x205F \<or> c = 0x3000)"

definition strip :: "str \<Rightarrow> str" where
  "strip s = rev (dropWhile py_isspace (rev (dropWhile py_isspace s)))"

text \<open>
  \<open>split_at_first pat s\<close> finds the first place where \<open>pat\<close> occurs in \<open>s\<close> and returns
  what stands before it and what stands after it; \<^verbatim>\<open>pat in s\<close> is that it finds one.
\<close>

fun split_at_first :: "str \<Rightarrow> str \<Rightarrow> (str \<times> str) option" where
  "split_at_first pat [] = (if pat = [] then Some ([], []) else None)"
| "split_at_first pat (c # cs) =
     (if take (length pat) (c # cs) = pat then Some ([], drop (length pat) (c # cs))
      else
        (case split_at_first pat cs of
           None \<Rightarrow> None
         | Some (before, rest) \<Rightarrow> Some (c # before, rest)))"

text \<open>\<^verbatim>\<open>sep.join(parts)\<close>.\<close>

fun join :: "str \<Rightarrow> str list \<Rightarrow> str" where
  "join sep [] = []"
| "join sep [x] = x"
| "join sep (x # y # ys) = x @ sep @ join sep (y # ys)"

section \<open>The JSON cleaning of the model's answer\<close>

text \<open>
  Step 4 of \<^verbatim>\<open>analyze\<close>, which the specification calls the response normalizer:
  \<^verbatim>\<open>
  json_str = raw_result.strip()
  if "```json" in json_str:
      json_str = re.search(r"```json(.*?)```", json_str, re.DOTALL).group(1)
  final_data = json.loads(json_str)
  \<close>
  The pattern starts with the marker and its group is lazy, so a match starts at the first
  marker and the group ends at the first three backticks after it; without them
  \<^verbatim>\<open>re.search\<close> returns \<^verbatim>\<open>None\<close> and \<^verbatim>\<open>.group\<close> raises. \<^verbatim>\<open>raw_result\<close> is whatever value
  the answer of the service holds under \<^verbatim>\<open>content\<close>; only a string has \<^verbatim>\<open>strip\<close>.
\<close>

definition fence_close :: str where
  "fence_close = [96, 96, 96]"

definition fence_json :: str where
  "fence_json = fence_close @ lit ''json''"

definition no_attribute :: "str \<Rightarrow> string \<Rightarrow> exn" where
  "no_attribute ty a =
     Exn AttributeError (squote ty @ lit '' object has no attribute '' @ squote (lit a))"

definition clean_json :: "str \<Rightarrow> exn + json" where
  "clean_json raw_result =
     (let json_str = strip raw_result in
      case split_at_first fence_json json_str of
        None \<Rightarrow> json_loads json_str
      | Some (before, after_marker) \<Rightarrow>
          (case split_at_first fence_close after_marker of
             None \<Rightarrow> Inl (no_attribute (lit ''NoneType'') ''group'')
           | Some (inside, rest) \<Rightarrow> json_loads inside))"

fun normalize :: "json \<Rightarrow> exn + json" where
  "normalize (JStr raw_result) = clean_json raw_result"
| "normalize v = Inl (no_attribute (type_name v) ''strip'')"

section \<open>The state of the process and of its surroundings\<close>

text \<open>
  A Redis server as the program sees it through \<^verbatim>\<open>redis.Redis(..., decode_responses=True)\<close>:
  a key holds a text until the instant it expires; the client encodes keys and values to
  UTF-8 before sending, and raises when the server cannot be reached.
\<close>

record redis_server =
  db :: "str \<rightharpoonup> str \<times> nat"
  clock :: nat
  outage :: "exn option"

definition redis_get :: "redis_server \<Rightarrow> str \<Rightarrow> exn + str option" where
  "redis_get r key =
     (case outage r of
        Some e \<Rightarrow> Inl e
      | None \<Rightarrow>
          (case utf8_encode key of
             Inl e \<Rightarrow> Inl e
           | Inr _ \<Rightarrow>
               (case db r key of
                  None \<Rightarrow> Inr None
                | Some (v, expiry) \<Rightarrow> if clock r < expiry then Inr (Some v) else Inr None)))"

definition redis_setex :: "redis_server \<Rightarrow> str \<Rightarrow> int \<Rightarrow> str \<Rightarrow> exn + redis_server" where
  "redis_setex r key seconds v =
     (case outage r of
        Some e \<Rightarrow> Inl e
      | None \<Rightarrow>
          (case utf8_encode key of
             Inl e \<Rightarrow> Inl e
           | Inr _ \<Rightarrow>
               (case utf8_encode v of
                  Inl e \<Rightarrow> Inl e
                | Inr _ \<Rightarrow>
                    if seconds \<le> 0 then Inl (Exn RedisError (lit ''invalid expire time in setex''))
                    else Inr (r\<lparr>db := (db r)(key \<mapsto> (v, clock r + nat seconds))\<rparr>))))"

text \<open>
  A Python variable holds \<^verbatim>\<open>None\<close> or a reference to an object. The objects are the values
  parsed from JSON, at addresses of a heap; \<open>brk\<close> is the next free address. Two variables
  with the same address see each other's item assignments.
\<close>

type_synonym addr = nat
type_synonym pyref = "addr option"

datatype log_level = INFO | WARNING | ERROR

record world =
  use_redis :: bool
  local_cache :: "str \<rightharpoonup> pyref"
  heap :: "addr \<Rightarrow> json"
  brk :: addr
  redis :: redis_server
  logged :: "(log_level \<times> str) list"
  posted :: "(str \<times> str) list"

text \<open>
  What the process reads and does not change: the API key, the PDF parser (for each page
  the text, \<^verbatim>\<open>None\<close>, or an exception; or an exception for the whole file), and the remote
  service: what \<^verbatim>\<open>requests.post(...).json()\<close> gives for the request number \<open>n\<close> carrying the
  first 1000 characters of the job description and the first 3000 of the resume.
\<close>

record env =
  api_key :: str
  pdf_reader :: "bytes \<Rightarrow> exn + (exn + str option) list"
  http_post :: "nat \<Rightarrow> str \<Rightarrow> str \<Rightarrow> exn + json"

definition log_msg :: "log_level \<Rightarrow> str \<Rightarrow> world \<Rightarrow> world" where
  "log_msg lvl m w = w\<lparr>logged := logged w @ [(lvl, m)]\<rparr>"

definition py_val :: "world \<Rightarrow> pyref \<Rightarrow> json" where
  "py_val w r = (case r of None \<Rightarrow> JNull | Some a \<Rightarrow> heap w a)"

definition py_new :: "json \<Rightarrow> world \<Rightarrow> pyref \<times> world" where
  "py_new v w =
     (if v = JNull then (None, w)
      else (Some (brk w), w\<lparr>heap := (heap w)(brk w := v), brk := Suc (brk w)\<rparr>))"

text \<open>\<^verbatim>\<open>obj[key] = value\<close> with a string key: only a dict takes it, and it changes in place.\<close>

definition setitem :: "pyref \<Rightarrow> str \<Rightarrow> json \<Rightarrow> world \<Rightarrow> (exn + unit) \<times> world" where
  "setitem r k v w =
     (case py_val w r of
        JObj kvs \<Rightarrow>
          (case r of
             Some a \<Rightarrow> (Inr (), w\<lparr>heap := (heap w)(a := JObj (AList.update k v kvs))\<rparr>)
           | None \<Rightarrow> (Inr (), w))
      | JArr vs \<Rightarrow>
          (Inl (Exn TypeError (lit ''list indices must be integers or slices, not str'')), w)
      | x \<Rightarrow>
          (Inl (Exn TypeError (squote (type_name x) @ lit '' object does not support item assignment'')),
           w))"

text \<open>Time passing on the server: the only change the surroundings make between calls.\<close>

definition advance :: "nat \<Rightarrow> world \<Rightarrow> world" where
  "advance d w = w\<lparr>redis := (redis w)\<lparr>clock := clock (redis w) + d\<rparr>\<rparr>"

section \<open>CacheManager.get and CacheManager.set\<close>

text \<open>
  \<^verbatim>\<open>
  def get(self, key):
      if self.use_redis:
          try:
              data = self.redis_client.get(key)
              return json.loads(data) if data else None
          except:
              return None
      return self.local_cache.get(key)
  \<close>
\<close>

definition cache_get :: "str \<Rightarrow> world \<Rightarrow> (exn + pyref) \<times> world" where
  "cache_get key w =
     (if use_redis w then
        (case
           (case redis_get (redis w) key of
              Inl e \<Rightarrow> (Inl e, w)
            | Inr data \<Rightarrow>
                (case data of
                   None \<Rightarrow> (Inr None, w)
                 | Some d \<Rightarrow>
                     if d = [] then (Inr None, w)
                     else
                       (case json_loads d of
                          Inl e \<Rightarrow> (Inl e, w)
                        | Inr v \<Rightarrow> (case py_new v w of (r, w') \<Rightarrow> (Inr r, w'))))) of
           (Inl e, w') \<Rightarrow> (Inr None, w')
         | (Inr r, w') \<Rightarrow> (Inr r, w'))
      else
        (case local_cache w key of
           None \<Rightarrow> (Inr None, w)
         | Some r \<Rightarrow> (Inr r, w)))"

text \<open>
  \<^verbatim>\<open>
  def set(self, key, data, expire=3600):
      if self.use_redis:
          try:
              self.redis_client.setex(key, expire, json.dumps(data, ensure_ascii=False))
          except Exception as e:
              logger.error(f"Redis Set Error: {e}")
      else:
          self.local_cache[key] = data
  \<close>
\<close>

definition cache_set :: "str \<Rightarrow> pyref \<Rightarrow> int \<Rightarrow> world \<Rightarrow> (exn + unit) \<times> world" where
  "cache_set key data expire w =
     (if use_redis w then
        (case
           (case redis_setex (redis w) key expire (json_dumps (py_val w data)) of
              Inl e \<Rightarrow> (Inl e, w)
            | Inr r' \<Rightarrow> (Inr (), w\<lparr>redis := r'\<rparr>)) of
           (Inl e, w') \<Rightarrow> (Inr (), log_msg ERROR (lit ''Redis Set Error: '' @ str_exn e) w')
         | (Inr u, w') \<Rightarrow> (Inr u, w'))
      else (Inr (), w\<lparr>local_cache := (local_cache w)(key \<mapsto> data)\<rparr>))"

text \<open>
  What the cache holds: on the shared backend the texts of the server with their expiry,
  on the local backend the value each key's object has now.
\<close>

datatype cache_contents =
    SharedContents "str \<rightharpoonup> str \<times> nat"
  | LocalContents "str \<rightharpoonup> json"

definition contents :: "world \<Rightarrow> cache_contents" where
  "contents w =
     (if use_redis w then SharedContents (db (redis w))
      else LocalContents (\<lambda>k. map_option (py_val w) (local_cache w k)))"

section \<open>extract_text_from_pdf\<close>

text \<open>
  \<^verbatim>\<open>
  def extract_text_from_pdf(file_bytes):
      try:
          reader = PdfReader(io.BytesIO(file_bytes))
          texts = [page.extract_text() or "" for page in reader.pages]
          return "\n".join(texts)
      except Exception as e:
          logger.error(f"PDF Error: {e}")
          return ""
  \<close>
\<close>

fun page_texts :: "(exn + str option) list \<Rightarrow> exn + str list" where
  "page_texts [] = Inr []"
| "page_texts (p # ps) =
     (case p of
        Inl e \<Rightarrow> Inl e
      | Inr t \<Rightarrow>
          (case page_texts ps of
             Inl e \<Rightarrow> Inl e
           | Inr ts \<Rightarrow> Inr ((case t of None \<Rightarrow> [] | Some x \<Rightarrow> x) # ts)))"

definition extract_text_from_pdf :: "env \<Rightarrow> bytes \<Rightarrow> world \<Rightarrow> (exn + str) \<times> world" where
  "extract_text_from_pdf ev file_bytes w =
     (case
        (case pdf_reader ev file_bytes of
           Inl e \<Rightarrow> Inl e
         | Inr pages \<Rightarrow>
             (case page_texts pages of
                Inl e \<Rightarrow> Inl e
              | Inr texts \<Rightarrow> Inr (join [10] texts))) of
        Inl e \<Rightarrow> (Inr [], log_msg ERROR (lit ''PDF Error: '' @ str_exn e) w)
      | Inr t \<Rightarrow> (Inr t, w))"

section \<open>call_qwen_analysis\<close>

text \<open>
  \<^verbatim>\<open>
  def call_qwen_analysis(resume_text, jd_text):
      if not QWEN_API_KEY:
          raise Exception("... QWEN_API_KEY")
      ...  # the prompt holds jd_text[:1000] and resume_text[:3000]
      try:
          res = requests.post(url, headers=headers, json=body, timeout=60)
          return res.json()["choices"][0]["message"]["content"]
      except Exception as e:
          logger.error(f"LLM Error: {e}")
          raise
  \<close>
\<close>

definition missing_key_msg :: str where
  "missing_key_msg = [0x672a, 0x914d, 0x7f6e] @ lit '' QWEN_API_KEY''"

definition response_content :: "json \<Rightarrow> exn + json" where
  "response_content body =
     (case getitem_key body (lit ''choices'') of
        Inl e \<Rightarrow> Inl e
      | Inr choices \<Rightarrow>
          (case getitem_0 choices of
             Inl e \<Rightarrow> Inl e
           | Inr choice \<Rightarrow>
               (case getitem_key choice (lit ''message'') of
                  Inl e \<Rightarrow> Inl e
                | Inr message \<Rightarrow> getitem_key message (lit ''content''))))"

definition call_qwen_analysis :: "env \<Rightarrow> str \<Rightarrow> str \<Rightarrow> world \<Rightarrow> (exn + json) \<times> world" where
  "call_qwen_analysis ev resume_text jd_text w =
     (if api_key ev = [] then (Inl (Exn PlainException missing_key_msg), w)
      else
        (let jd_part = take 1000 jd_text;
             resume_part = take 3000 resume_text;
             w1 = w\<lparr>posted := posted w @ [(jd_part, resume_part)]\<rparr>
         in case
              (case http_post ev (length (posted w)) jd_part resume_part of
                 Inl e \<Rightarrow> Inl e
               | Inr body \<Rightarrow> response_content body) of
              Inl e \<Rightarrow> (Inl e, log_msg ERROR (lit ''LLM Error: '' @ str_exn e) w1)
            | Inr content \<Rightarrow> (Inr content, w1)))"

section \<open>analyze\<close>

text \<open>
  The request as the handler reads it: the header \<^verbatim>\<open>x-fc-request-id\<close> (or the empty
  string), the bytes of the uploaded \<^verbatim>\<open>file\<close> if there is one, and the form field \<^verbatim>\<open>jd\<close> if
  there is one. A response is the JSON body with its status.
\<close>

record request =
  req_rid :: str
  req_file :: "bytes option"
  req_jd :: "str option"

type_synonym response = "json \<times> nat"

definition error_response :: "str \<Rightarrow> nat \<Rightarrow> response" where
  "error_response m status = (JObj [(lit ''error'', JStr m)], status)"

definition cache_hit_msg :: str where
  "cache_hit_msg = [0x26a1, 0xfe0f] @ lit '' Cache Hit''"

definition pdf_empty_msg :: str where
  "pdf_empty_msg =
     lit ''PDF'' @ [0x89e3, 0x6790, 0x4e3a, 0x7a7a, 0xff0c, 0x8bf7, 0x68c0, 0x67e5, 0x6587, 0x4ef6]"

text \<open>
  Steps 2 to 5 of the handler, after a lookup that gave nothing to serve: parse the PDF,
  ask the service, clean the answer, write the cache, answer.
\<close>

definition analyze_miss :: "env \<Rightarrow> str \<Rightarrow> bytes \<Rightarrow> str \<Rightarrow> world \<Rightarrow> (exn + response) \<times> world" where
  "analyze_miss ev cache_key file_bytes jd w1 =
     (case extract_text_from_pdf ev file_bytes w1 of
        (Inl e, w2) \<Rightarrow> (Inl e, w2)
      | (Inr resume_text, w2) \<Rightarrow>
          if strip resume_text = [] then (Inr (error_response pdf_empty_msg 400), w2)
          else
            (case call_qwen_analysis ev resume_text jd w2 of
               (Inl e, w3) \<Rightarrow> (Inl e, w3)
             | (Inr raw_result, w3) \<Rightarrow>
                 (case normalize raw_result of
                    Inl e \<Rightarrow> (Inl e, w3)
                  | Inr v \<Rightarrow>
                      (case py_new v w3 of
                         (final_data, w4) \<Rightarrow>
                           (case cache_set cache_key final_data 3600 w4 of
                              (Inl e, w5) \<Rightarrow> (Inl e, w5)
                            | (Inr u, w5) \<Rightarrow> (Inr (py_val w5 final_data, 200), w5))))))"

text \<open>The body of the \<^verbatim>\<open>try\<close> of the handler.\<close>

definition analyze_body :: "env \<Rightarrow> request \<Rightarrow> world \<Rightarrow> (exn + response) \<times> world" where
  "analyze_body ev req w0 =
     (case req_file req of
        None \<Rightarrow> (Inr (error_response (lit ''No file uploaded'') 400), w0)
      | Some file_bytes \<Rightarrow>
          (let jd = (case req_jd req of None \<Rightarrow> [] | Some t \<Rightarrow> t) in
           if file_bytes = [] then (Inr (error_response (lit ''Empty file'') 400), w0)
           else
             (case generate_key file_bytes jd of
                Inl e \<Rightarrow> (Inl e, w0)
              | Inr cache_key \<Rightarrow>
                  (case cache_get cache_key w0 of
                     (Inl e, w1) \<Rightarrow> (Inl e, w1)
                   | (Inr cached_data, w1) \<Rightarrow>
                       if truthy (py_val w1 cached_data) then
                         (case setitem cached_data (lit ''_is_cached'') (JBool True)
                                 (log_msg INFO cache_hit_msg w1) of
                            (Inl e, w2) \<Rightarrow> (Inl e, w2)
                          | (Inr u, w2) \<Rightarrow> (Inr (py_val w2 cached_data, 200), w2))
                       else analyze_miss ev cache_key file_bytes jd w1))))"

text \<open>
  \<^verbatim>\<open>
  def analyze():
      rid = request.headers.get(REQUEST_ID_HEADER, "")
      logger.info(f"Start Request: {rid}")
      try:
          ...
      except Exception as e:
          logger.exception("Error")
          return jsonify({"error": str(e)}), 500
  \<close>
\<close>

definition analyze :: "env \<Rightarrow> request \<Rightarrow> world \<Rightarrow> response \<times> world" where
  "analyze ev req w =
     (case analyze_body ev req (log_msg INFO (lit ''Start Request: '' @ req_rid req) w) of
        (Inl e, w') \<Rightarrow> (error_response (str_exn e) 500, log_msg ERROR (lit ''Error'') w')
      | (Inr resp, w') \<Rightarrow> (resp, w'))"

section \<open>Example states, surroundings and requests\<close>

text \<open>
  The concrete inputs at which the properties below are evaluated: an empty local cache, a
  Redis server that is up and one that refuses connections, a PDF parser that finds one
  page, a service that answers with the bare JSON example, one that times out and one
  that answers with prose.
\<close>

definition redis_up :: redis_server where
  "redis_up = \<lparr>db = Map.empty, clock = 0, outage = None\<rparr>"

definition world0 :: world where
  "world0 = \<lparr>use_redis = False, local_cache = Map.empty, heap = (\<lambda>a. JNull), brk = 0,
     redis = redis_up, logged = [], posted = []\<rparr>"

definition connection_error :: exn where
  "connection_error = Exn RedisError (lit ''Connection refused'')"


definition bare_example :: str where
  "bare_example = lit ''{'' @ [34] @ lit ''a'' @ [34] @ lit '':1}''"

definition env_two_pages :: env where
  "env_two_pages = \<lparr>api_key = lit ''sk'',
     pdf_reader = (\<lambda>b. if b = pdf_magic then Inr [Inr (Some (lit ''Jane'')), Inr None, Inr (Some (lit ''Doe''))]
                        else Inl (Exn PdfError (lit ''EOF marker not found''))),
     http_post = (\<lambda>n jd r. Inl (Exn RequestsError (lit ''timeout'')))\<rparr>"

definition req_example :: request where
  "req_example = \<lparr>req_rid = lit ''r1'', req_file = Some pdf_magic, req_jd = Some (lit ''dev'')\<rparr>"

definition answer_body :: "str \<Rightarrow> json" where
  "answer_body content =
     JObj [(lit ''choices'', JArr [JObj [(lit ''message'', JObj [(lit ''content'', JStr content)])]])]"

definition env_example :: env where
  "env_example = \<lparr>api_key = lit ''sk'',
     pdf_reader = (\<lambda>b. Inr [Inr (Some (lit ''Jane Doe''))]),
     http_post = (\<lambda>n jd r. Inr (answer_body bare_example))\<rparr>"

definition world_down :: world where
  "world_down = world0\<lparr>use_redis := True, redis := redis_up\<lparr>outage := Some connection_error\<rparr>\<rparr>"



definition world1 :: world where
  "world1 = world0\<lparr>
     local_cache := [key_example \<mapsto> Some 0],
     heap := (\<lambda>a. JNull)(0 := JObj [(lit ''a'', JInt 1)]),
     brk := 1,
     logged := [(INFO, lit ''Start Request: r1'')],
     posted := [(lit ''dev'', lit ''Jane Doe'')]\<rparr>"

definition world2 :: world where
  "world2 = world1\<lparr>
     heap := (\<lambda>a. JNull)(0 := JObj [(lit ''a'', JInt 1), (lit ''_is_cached'', JBool True)]),
     logged := [(INFO, lit ''Start Request: r1''), (INFO, lit ''Start Request: r1''), (INFO, cache_hit_msg)]\<rparr>"

definition world_garbled :: world where
  "world_garbled = world0\<lparr>use_redis := True, redis := redis_up\<lparr>db := [lit ''k'' \<mapsto> (lit ''{oops'', 9)]\<rparr>\<rparr>"

definition world_empty_entry :: world where
  "world_empty_entry = world0\<lparr>
     local_cache := [key_example \<mapsto> Some 0], heap := (\<lambda>a. JNull)(0 := JObj []), brk := 1\<rparr>"

definition world_shared_empty_entry :: world where
  "world_shared_empty_entry = world0\<lparr>
     use_redis := True, redis := redis_up\<lparr>db := [key_example \<mapsto> (lit ''{}'', 3600)]\<rparr>\<rparr>"

chapter \<open>Properties\<close>

section \<open>Facts about the fingerprint\<close>

lemma length_bytes_le: "length (bytes_le n w) = n"
  by (simp add: bytes_le_def)

lemma length_md5: "length (md5 m) = 16"
  by (simp add: md5_def length_bytes_le split: prod.splits)

lemma length_hexdigest: "length (hexdigest bs) = 2 * length bs"
  by (induction bs) simp_all

lemma hex_digit_inj: "m < 16 \<Longrightarrow> n < 16 \<Longrightarrow> hex_digit m = hex_digit n \<Longrightarrow> m = n"
  by (auto simp: hex_digit_def split: if_splits)

lemma hi_nibble_less: "unat (drop_bit 4 (b :: byte)) < 16"
proof -
  have "unat (drop_bit 4 b) = unat b div 16"
    by (simp add: drop_bit_eq_div unat_div)
  moreover have "unat b < 256"
    using unsigned_less [of b] by simp
  ultimately show ?thesis by simp
qed

lemma lo_nibble_less: "unat ((b :: byte) AND 15) < 16"
proof -
  have "unat (b AND 15) \<le> unat (15 :: byte)"
    by (rule word_and_le1 [THEN word_le_nat_alt [THEN iffD1]])
  then show ?thesis by simp
qed

lemma byte_nibbles:
  fixes b c :: byte
  assumes "drop_bit 4 b = drop_bit 4 c" and "b AND 15 = c AND 15"
  shows "b = c"
proof -
  have m: "(15 :: byte) = mask 4"
    by (simp add: mask_eq_exp_minus_1)
  have "take_bit 4 b = take_bit 4 c"
    using assms(2) by (simp add: m take_bit_eq_mask)
  then have "push_bit 4 (drop_bit 4 b) + take_bit 4 b = push_bit 4 (drop_bit 4 c) + take_bit 4 c"
    using assms(1) by simp
  then show ?thesis
    by (simp only: bits_ident)
qed
lemma hexdigest_inj: "length bs = length cs \<Longrightarrow> hexdigest bs = hexdigest cs \<Longrightarrow> bs = cs"
proof (induction bs arbitrary: cs)
  case Nil
  then show ?case by simp
next
  case (Cons b bs)
  then obtain c cs' where cs: "cs = c # cs'"
    by (cases cs) auto
  from Cons.prems cs have hi: "hex_digit (unat (drop_bit 4 b)) = hex_digit (unat (drop_bit 4 c))"
    and lo: "hex_digit (unat (b AND 15)) = hex_digit (unat (c AND 15))"
    and tl: "hexdigest bs = hexdigest cs'" and len: "length bs = length cs'"
    by simp_all
  have "unat (drop_bit 4 b) = unat (drop_bit 4 c)"
    by (rule hex_digit_inj [OF hi_nibble_less hi_nibble_less hi])
  then have 1: "drop_bit 4 b = drop_bit 4 c"
    by (simp only: word_unat_eq_iff)
  have "unat (b AND 15) = unat (c AND 15)"
    by (rule hex_digit_inj [OF lo_nibble_less lo_nibble_less lo])
  then have 2: "b AND 15 = c AND 15"
    by (simp only: word_unat_eq_iff)
  have "b = c"
    by (rule byte_nibbles [OF 1 2])
  with Cons.IH [OF len tl] cs show ?case by simp
qed

lemma md5_wang1: "hexdigest (md5 wang1) = lit ''79054025255fb1a26e4bc422aef54eb4''"
  by code_simp

lemma md5_wang2: "hexdigest (md5 wang2) = lit ''79054025255fb1a26e4bc422aef54eb4''"
  by code_simp

lemma wang_differ: "wang1 \<noteq> wang2"
  by code_simp

lemma hex_digit_is_hex: "n < 16 \<Longrightarrow> is_hex_char (hex_digit n)"
  by (auto simp: hex_digit_def is_hex_char_def)

lemma hexdigest_is_hex: "c \<in> set (hexdigest bs) \<Longrightarrow> is_hex_char c"
  by (induction bs) (auto simp: hex_digit_is_hex hi_nibble_less lo_nibble_less)

lemma generate_key_Inr:
  "utf8_encode t = Inr u \<Longrightarrow>
   generate_key b t = Inr (lit ''resume:v3:'' @ hexdigest (md5 b) @ lit '':'' @ hexdigest (md5 u))"
  by (simp add: generate_key_def)

lemma generate_key_example: "generate_key pdf_magic (lit ''dev'') = Inr key_example"
  by code_simp

lemma hexdigest_md5_eq_iff: "hexdigest (md5 x) = hexdigest (md5 y) \<longleftrightarrow> md5 x = md5 y"
  using hexdigest_inj [of "md5 x" "md5 y"] by (auto simp: length_md5)

text \<open>
  C1, the claim as stated: two keys are equal if and only if the two documents are equal
  and the two texts are equal. It fails: \<open>wang1\<close> and \<open>wang2\<close> are different documents
  and get the same key with the same (empty) job description.
\<close>

theorem generate_key_collision:
  "\<not> (generate_key wang1 [] = generate_key wang2 [] \<longleftrightarrow> wang1 = wang2 \<and> ([] :: str) = [])"
  by (simp add: generate_key_def md5_wang1 md5_wang2 wang_differ)

text \<open>
  C1, amended: the key is a function of its inputs (equal inputs, equal keys), and for
  texts that UTF-8 can encode two keys are equal exactly when the MD5 digests of the two
  documents are equal and the MD5 digests of the two encoded texts are equal.
\<close>

theorem generate_key_eq_iff:
  assumes "utf8_encode t1 = Inr u1" and "utf8_encode t2 = Inr u2"
  shows "generate_key b1 t1 = generate_key b2 t2 \<longleftrightarrow> md5 b1 = md5 b2 \<and> md5 u1 = md5 u2"
proof -
  have len: "length (hexdigest (md5 b1)) = length (hexdigest (md5 b2))"
    by (simp add: length_hexdigest length_md5)
  show ?thesis
    by (simp add: generate_key_Inr [OF assms(1)] generate_key_Inr [OF assms(2)] len
        hexdigest_md5_eq_iff)
qed

theorem generate_key_eq_iff_witness:
  "utf8_encode [] = Inr [] \<and>
   (generate_key wang1 [] = generate_key wang2 [] \<longleftrightarrow> md5 wang1 = md5 wang2 \<and> md5 [] = md5 [])"
  using generate_key_eq_iff [of "[]" "[]" "[]" "[]" wang1 wang2] by simp

text \<open>
  C3, the claim as stated: both digests of the key come from a hash function of
  cryptographic strength, not of checksum strength. The digest is MD5, and it does not
  separate the two different documents \<open>wang1\<close> and \<open>wang2\<close>: their first digests are
  the same 32 characters.
\<close>

theorem md5_digest_collision:
  "wang1 \<noteq> wang2 \<and> hexdigest (md5 wang1) = hexdigest (md5 wang2)"
  by (simp add: md5_wang1 md5_wang2 wang_differ)

text \<open>
  C3, amended: for every document and every text that UTF-8 can encode, the key is
  \<^verbatim>\<open>resume:v3:\<close>, the MD5 digest of the document, a colon, and the MD5 digest of the
  encoded text; each digest is 32 lowercase hexadecimal digits (128 bits), and the key has
  75 characters.
\<close>

theorem generate_key_format:
  assumes "utf8_encode t = Inr u"
  shows "\<exists>d1 d2. generate_key b t = Inr (lit ''resume:v3:'' @ d1 @ lit '':'' @ d2)
           \<and> d1 = hexdigest (md5 b) \<and> d2 = hexdigest (md5 u)
           \<and> length d1 = 32 \<and> length d2 = 32
           \<and> (\<forall>c \<in> set d1 \<union> set d2. is_hex_char c)
           \<and> length (lit ''resume:v3:'' @ d1 @ lit '':'' @ d2) = 75"
  using generate_key_Inr [OF assms, of b]
  by (auto simp: length_hexdigest length_md5 lit_def dest: hexdigest_is_hex)

theorem generate_key_format_witness:
  "utf8_encode (lit ''dev'') = Inr [0x64, 0x65, 0x76] \<and>
   (\<exists>d1 d2. generate_key pdf_magic (lit ''dev'') = Inr (lit ''resume:v3:'' @ d1 @ lit '':'' @ d2)
           \<and> d1 = hexdigest (md5 pdf_magic) \<and> d2 = hexdigest (md5 [0x64, 0x65, 0x76])
           \<and> length d1 = 32 \<and> length d2 = 32
           \<and> (\<forall>c \<in> set d1 \<union> set d2. is_hex_char c)
           \<and> length (lit ''resume:v3:'' @ d1 @ lit '':'' @ d2) = 75)"
proof -
  have enc: "utf8_encode (lit ''dev'') = Inr [0x64, 0x65, 0x76]"
    by (simp add: lit_def utf8_char_def)
  show ?thesis
    using enc generate_key_format [OF enc, of pdf_magic] by simp
qed

lemmas parse_fuel_numeral =
  parse_value.simps(2) [of "pred_numeral k" for k, folded numeral_eq_Suc]
  parse_elems.simps(2) [of "pred_numeral k" for k, folded numeral_eq_Suc]
  parse_members.simps(2) [of "pred_numeral k" for k, folded numeral_eq_Suc]

lemmas eval_json = parse_fuel_numeral
  json_loads_def lit_def skip_ws_def is_ws_def match_number_def match_int_part_def
  match_frac_def match_exp_def is_digit_def nat_of_digits_def dict_of_pairs_def json_error_def

lemmas eval_clean =
  clean_json_def strip_def py_isspace_def fence_json_def fence_close_def no_attribute_def squote_def

lemma page_texts_all_ok:
  "page_texts (map Inr ts) = Inr (map (\<lambda>t. case t of None \<Rightarrow> [] | Some x \<Rightarrow> x) ts)"
  by (induction ts) simp_all

lemma page_texts_fail: "Inl e \<in> set pages \<Longrightarrow> \<exists>e'. page_texts pages = Inl e'"
  by (induction pages) (auto split: sum.splits)

lemma extract_text_returns: "\<exists>t w'. extract_text_from_pdf ev b w = (Inr t, w')"
  by (simp add: extract_text_from_pdf_def split: sum.splits)

text \<open>
  C8: for every byte sequence, in every state, \<open>extract_text_from_pdf\<close> returns a string
  and raises nothing. When the parser gives the pages and each page gives its text (or
  \<^verbatim>\<open>None\<close>, read as the empty text), the result is the texts of the pages in page order
  joined by line feeds, and the state is unchanged. When the parser raises, or a page
  raises, the result is the empty string and the failure is logged.
\<close>

theorem extract_text_never_raises:
  "(\<exists>t w'. extract_text_from_pdf ev b w = (Inr t, w'))
   \<and> (\<forall>ts. pdf_reader ev b = Inr (map Inr ts) \<longrightarrow>
          extract_text_from_pdf ev b w
            = (Inr (join [10] (map (\<lambda>t. case t of None \<Rightarrow> [] | Some x \<Rightarrow> x) ts)), w))
   \<and> (\<forall>e. pdf_reader ev b = Inl e \<longrightarrow>
          extract_text_from_pdf ev b w = (Inr [], log_msg ERROR (lit ''PDF Error: '' @ str_exn e) w))
   \<and> (\<forall>pages e. pdf_reader ev b = Inr pages \<and> Inl e \<in> set pages \<longrightarrow>
          (\<exists>e'. extract_text_from_pdf ev b w
                  = (Inr [], log_msg ERROR (lit ''PDF Error: '' @ str_exn e') w)))"
proof (intro conjI allI impI)
  show "\<exists>t w'. extract_text_from_pdf ev b w = (Inr t, w')"
    by (rule extract_text_returns)
next
  fix ts assume "pdf_reader ev b = Inr (map Inr ts)"
  then show "extract_text_from_pdf ev b w
      = (Inr (join [10] (map (\<lambda>t. case t of None \<Rightarrow> [] | Some x \<Rightarrow> x) ts)), w)"
    by (simp add: extract_text_from_pdf_def page_texts_all_ok)
next
  fix e assume "pdf_reader ev b = Inl e"
  then show "extract_text_from_pdf ev b w = (Inr [], log_msg ERROR (lit ''PDF Error: '' @ str_exn e) w)"
    by (simp add: extract_text_from_pdf_def)
next
  fix pages e assume a: "pdf_reader ev b = Inr pages \<and> Inl e \<in> set pages"
  then obtain e' where "page_texts pages = Inl e'"
    using page_texts_fail by blast
  with a show "\<exists>e'. extract_text_from_pdf ev b w
      = (Inr [], log_msg ERROR (lit ''PDF Error: '' @ str_exn e') w)"
    by (auto simp: extract_text_from_pdf_def)
qed

text \<open>
  A document of three pages, the second without text, and a blob the parser rejects.
\<close>

theorem extract_text_never_raises_witness:
  "extract_text_from_pdf env_two_pages pdf_magic world0 = (Inr (lit ''Jane'' @ [10, 10] @ lit ''Doe''), world0)
   \<and> extract_text_from_pdf env_two_pages [0x00] world0
       = (Inr [], log_msg ERROR (lit ''PDF Error: EOF marker not found'') world0)"
proof -
  have 1: "pdf_reader env_two_pages pdf_magic = Inr (map Inr [Some (lit ''Jane''), None, Some (lit ''Doe'')])"
    by (simp add: env_two_pages_def)
  have 2: "pdf_reader env_two_pages [0x00] = Inl (Exn PdfError (lit ''EOF marker not found''))"
    by (simp add: env_two_pages_def pdf_magic_def)
  have "extract_text_from_pdf env_two_pages pdf_magic world0
      = (Inr (join [10] (map (\<lambda>t. case t of None \<Rightarrow> [] | Some x \<Rightarrow> x)
           [Some (lit ''Jane''), None, Some (lit ''Doe'')])), world0)"
    using extract_text_never_raises [of env_two_pages pdf_magic world0] 1 by blast
  moreover have "extract_text_from_pdf env_two_pages [0x00] world0
      = (Inr [], log_msg ERROR (lit ''PDF Error: '' @ str_exn (Exn PdfError (lit ''EOF marker not found''))) world0)"
    using extract_text_never_raises [of env_two_pages "[0x00]" world0] 2 by blast
  ultimately show ?thesis
    by (simp add: lit_def)
qed

section \<open>Facts about the JSON reader\<close>
























lemma py_val_py_new: "py_new v w = (r, w') \<Longrightarrow> py_val w' r = v"
  by (auto simp: py_new_def py_val_def split: if_splits)

lemma cache_set_returns: "\<exists>w'. cache_set key data expire w = (Inr (), w')"
  by (simp add: cache_set_def split: sum.splits)

lemma py_val_cache_set: "cache_set key data expire w = (res, w') \<Longrightarrow> py_val w' r = py_val w r"
  by (auto simp: cache_set_def py_val_def log_msg_def split: sum.splits if_splits option.splits)

lemma analyze_miss_completes:
  assumes "extract_text_from_pdf ev b w1 = (Inr t, w2)" and "strip t \<noteq> []"
    and "call_qwen_analysis ev t jd w2 = (Inr raw, w3)" and "normalize raw = Inr v"
  shows "\<exists>w5. analyze_miss ev k b jd w1 = (Inr (v, 200), w5)"
proof -
  obtain r w4 where new: "py_new v w3 = (r, w4)"
    by (cases "py_new v w3")
  obtain w5 where wr: "cache_set k r 3600 w4 = (Inr (), w5)"
    using cache_set_returns by blast
  have "py_val w5 r = v"
    using py_val_cache_set [OF wr] py_val_py_new [OF new] by simp
  then show ?thesis
    using assms new wr by (simp add: analyze_miss_def)
qed

text \<open>
  C6: \<open>cache_set\<close> is fail-silent. With the shared backend active, when the write raises,
  \<open>cache_set\<close> logs \<^verbatim>\<open>Redis Set Error: ...\<close> at error level, changes nothing else and
  returns normally; for every key, value and expiry, in every state, on either backend, it
  raises nothing; and a request whose text was extracted, whose answer arrived and was
  cleaned into JSON ends with that JSON and status 200 whatever the write does.
\<close>

theorem cache_set_fail_silent:
  assumes "use_redis w"
    and "redis_setex (redis w) key expire (json_dumps (py_val w data)) = Inl e"
  shows "cache_set key data expire w
           = (Inr (), log_msg ERROR (lit ''Redis Set Error: '' @ str_exn e) w)
         \<and> (\<forall>k d x w0. \<exists>w'. cache_set k d x w0 = (Inr (), w'))
         \<and> (\<forall>ev b jd w1 t w2 raw w3 v k.
               extract_text_from_pdf ev b w1 = (Inr t, w2) \<and> strip t \<noteq> []
               \<and> call_qwen_analysis ev t jd w2 = (Inr raw, w3) \<and> normalize raw = Inr v \<longrightarrow>
               (\<exists>w5. analyze_miss ev k b jd w1 = (Inr (v, 200), w5)))"
proof (intro conjI allI impI)
  show "cache_set key data expire w
      = (Inr (), log_msg ERROR (lit ''Redis Set Error: '' @ str_exn e) w)"
    using assms by (simp add: cache_set_def)
  show "\<exists>w'. cache_set k d x w0 = (Inr (), w')" for k d x w0
    by (rule cache_set_returns)
  show "\<exists>w5. analyze_miss ev k b jd w1 = (Inr (v, 200), w5)"
    if "extract_text_from_pdf ev b w1 = (Inr t, w2) \<and> strip t \<noteq> []
        \<and> call_qwen_analysis ev t jd w2 = (Inr raw, w3) \<and> normalize raw = Inr v"
    for ev b jd w1 t w2 raw w3 v k
    using that analyze_miss_completes by blast
qed

lemmas eval_world = world0_def redis_up_def world_down_def connection_error_def log_msg_def

lemma extract_example:
  "extract_text_from_pdf env_example pdf_magic w = (Inr (lit ''Jane Doe''), w)"
  by (simp add: extract_text_from_pdf_def env_example_def)

lemma strip_example: "strip (lit ''Jane Doe'') \<noteq> []"
  by (simp add: strip_def lit_def py_isspace_def)

lemma call_example:
  "call_qwen_analysis env_example (lit ''Jane Doe'') (lit ''dev'') w
     = (Inr (JStr bare_example), w\<lparr>posted := posted w @ [(lit ''dev'', lit ''Jane Doe'')]\<rparr>)"
  by (simp add: call_qwen_analysis_def env_example_def response_content_def answer_body_def lit_def)

lemma normalize_bare: "normalize (JStr bare_example) = Inr (JObj [(lit ''a'', JInt 1)])"
  by (simp add: bare_example_def eval_clean eval_json)

text \<open>
  A server that refuses the connection: the write is logged and swallowed, and the request
  of the example still answers with status 200.
\<close>

theorem cache_set_fail_silent_witness:
  "cache_set key_example (Some 0) 3600 (world_down\<lparr>heap := (\<lambda>a. JObj []), brk := 1\<rparr>)
     = (Inr (), log_msg ERROR (lit ''Redis Set Error: Connection refused'')
                  (world_down\<lparr>heap := (\<lambda>a. JObj []), brk := 1\<rparr>))
   \<and> (\<exists>w5. analyze_miss env_example key_example pdf_magic (lit ''dev'') world_down
          = (Inr (JObj [(lit ''a'', JInt 1)], 200), w5))"
proof -
  let ?w = "world_down\<lparr>heap := (\<lambda>a. JObj []), brk := 1\<rparr>"
  have 1: "use_redis ?w"
    by (simp add: eval_world)
  have 2: "redis_setex (redis ?w) key_example 3600 (json_dumps (py_val ?w (Some 0))) = Inl connection_error"
    by (simp add: redis_setex_def eval_world)
  have a: "cache_set key_example (Some 0) 3600 ?w
      = (Inr (), log_msg ERROR (lit ''Redis Set Error: '' @ str_exn connection_error) ?w)"
    using cache_set_fail_silent [OF 1 2] by blast
  have b: "\<exists>w5. analyze_miss env_example key_example pdf_magic (lit ''dev'') world_down
      = (Inr (JObj [(lit ''a'', JInt 1)], 200), w5)"
    using cache_set_fail_silent [OF 1 2] extract_example strip_example call_example normalize_bare
    by blast
  from a b show ?thesis
    by (simp add: connection_error_def lit_def)
qed



lemma py_val_cong: "heap w' = heap w \<Longrightarrow> py_val w' = py_val w"
proof (rule ext)
  fix r
  assume "heap w' = heap w"
  then show "py_val w' r = py_val w r"
    by (cases r) (simp_all add: py_val_def)
qed







lemma cache_get_local:
  "\<not> use_redis w \<Longrightarrow> cache_get k w = (Inr (case local_cache w k of None \<Rightarrow> None | Some r \<Rightarrow> r), w)"
  by (simp add: cache_get_def split: option.splits)

lemma cache_set_local:
  "\<not> use_redis w \<Longrightarrow> cache_set k d x w = (Inr (), w\<lparr>local_cache := (local_cache w)(k \<mapsto> d)\<rparr>)"
  by (simp add: cache_set_def)

lemma extract_ok:
  "pdf_reader ev b = Inr pages \<Longrightarrow> page_texts pages = Inr texts \<Longrightarrow>
   extract_text_from_pdf ev b w = (Inr (join [10] texts), w)"
  by (simp add: extract_text_from_pdf_def)

lemma call_ok:
  "api_key ev \<noteq> [] \<Longrightarrow>
   http_post ev (length (posted w)) (take 1000 jd) (take 3000 t) = Inr body \<Longrightarrow>
   response_content body = Inr raw \<Longrightarrow>
   call_qwen_analysis ev t jd w = (Inr raw, w\<lparr>posted := posted w @ [(take 1000 jd, take 3000 t)]\<rparr>)"
  by (simp add: call_qwen_analysis_def Let_def)

lemma key_example_unfolded: "generate_key pdf_magic [100, 101, 118] = Inr key_example"
  using generate_key_example by (simp add: lit_def)

lemma pdf_magic_nonempty: "pdf_magic \<noteq> []"
  by (simp add: pdf_magic_def)


lemma clean_bare: "clean_json bare_example = Inr (JObj [(lit ''a'', JInt 1)])"
  using normalize_bare by simp

lemma first_request:
  "analyze env_example req_example world0 = ((JObj [(lit ''a'', JInt 1)], 200), world1)"
proof -
  let ?w0 = "log_msg INFO (lit ''Start Request: '' @ req_rid req_example) world0"
  have g: "cache_get key_example ?w0 = (Inr None, ?w0)"
    by (simp add: cache_get_def world0_def log_msg_def)
  have m: "analyze_miss env_example key_example pdf_magic (lit ''dev'') ?w0
      = (Inr (JObj [(lit ''a'', JInt 1)], 200), world1)"
    by (simp add: analyze_miss_def extract_example strip_example call_example clean_bare
        py_new_def cache_set_def py_val_def world1_def world0_def log_msg_def req_example_def)
      (simp add: lit_def)
  have b: "analyze_body env_example req_example ?w0 = (Inr (JObj [(lit ''a'', JInt 1)], 200), world1)"
    using g m
    by (simp add: analyze_body_def pdf_magic_nonempty generate_key_example py_val_def
        req_example_def)
  show ?thesis
    using b by (simp add: analyze_def)
qed

lemma second_request:
  "analyze env_example req_example world1
     = ((JObj [(lit ''a'', JInt 1), (lit ''_is_cached'', JBool True)], 200), world2)"
proof -
  let ?w0 = "log_msg INFO (lit ''Start Request: '' @ req_rid req_example) world1"
  have g: "cache_get key_example ?w0 = (Inr (Some 0), ?w0)"
    by (simp add: cache_get_def world1_def world0_def log_msg_def)
  have v: "py_val ?w0 (Some 0) = JObj [(lit ''a'', JInt 1)]"
    by (simp add: py_val_def world1_def log_msg_def)
  have s: "setitem (Some 0) (lit ''_is_cached'') (JBool True) (log_msg INFO cache_hit_msg ?w0)
      = (Inr (), world2)"
    by (simp add: setitem_def py_val_def world2_def world1_def world0_def log_msg_def req_example_def)
      (simp add: lit_def)
  have v2: "py_val world2 (Some 0) = JObj [(lit ''a'', JInt 1), (lit ''_is_cached'', JBool True)]"
    by (simp add: py_val_def world2_def)
  have b: "analyze_body env_example req_example ?w0
      = (Inr (JObj [(lit ''a'', JInt 1), (lit ''_is_cached'', JBool True)], 200), world2)"
    using g v s v2
    by (simp add: analyze_body_def pdf_magic_nonempty generate_key_example req_example_def)
  show ?thesis
    using b by (simp add: analyze_def)
qed

text \<open>
  C2: the flag \<^verbatim>\<open>_is_cached\<close> is added to the response of a hit only, and a hit leaves the
  stored entry unchanged on every backend. The local backend does otherwise. Two equal
  requests on the empty local cache: the first answers \<^verbatim>\<open>{"a": 1}\<close> and stores it; the
  second is a hit, \<open>cache_get\<close> hands out the stored object itself, the handler sets the
  flag in it, and the cache now holds \<^verbatim>\<open>{"a": 1, "_is_cached": true}\<close>.
\<close>

theorem local_hit_persists_flag:
  "fst (analyze env_example req_example world0) = (JObj [(lit ''a'', JInt 1)], 200)
   \<and> contents (snd (analyze env_example req_example world0))
       = LocalContents [key_example \<mapsto> JObj [(lit ''a'', JInt 1)]]
   \<and> fst (analyze env_example req_example (snd (analyze env_example req_example world0)))
       = (JObj [(lit ''a'', JInt 1), (lit ''_is_cached'', JBool True)], 200)
   \<and> contents (snd (analyze env_example req_example (snd (analyze env_example req_example world0))))
       = LocalContents [key_example \<mapsto> JObj [(lit ''a'', JInt 1), (lit ''_is_cached'', JBool True)]]"
proof -
  have 1: "contents world1 = LocalContents [key_example \<mapsto> JObj [(lit ''a'', JInt 1)]]"
    by (auto simp: contents_def world1_def world0_def py_val_def fun_eq_iff)
  have 2: "contents world2
      = LocalContents [key_example \<mapsto> JObj [(lit ''a'', JInt 1), (lit ''_is_cached'', JBool True)]]"
    by (auto simp: contents_def world2_def world1_def world0_def py_val_def fun_eq_iff)
  show ?thesis
    by (simp add: first_request second_request 1 2)
qed

lemma cache_get_returns: "\<exists>r w'. cache_get key w = (Inr r, w')"
  by (auto simp: cache_get_def split: sum.splits option.splits prod.splits)

text \<open>
  C5: \<open>cache_get\<close> is fail-open. With the shared backend active, when the client raises
  during the lookup, or the stored text does not parse as JSON, \<open>cache_get\<close> returns
  \<^verbatim>\<open>None\<close> and leaves the state as it was; and for every key, in every state, on either
  backend, it returns a value and raises nothing.
\<close>

theorem cache_get_fail_open:
  assumes "use_redis w"
    and "redis_get (redis w) key = Inl e
         \<or> (redis_get (redis w) key = Inr (Some d) \<and> json_loads d = Inl e)"
  shows "cache_get key w = (Inr None, w) \<and> (\<forall>k' w'. \<exists>r w''. cache_get k' w' = (Inr r, w''))"
proof
  show "cache_get key w = (Inr None, w)"
    using assms by (auto simp: cache_get_def)
  show "\<forall>k' w'. \<exists>r w''. cache_get k' w' = (Inr r, w'')"
    by (simp add: cache_get_returns)
qed

text \<open>
  The two failures at concrete states: a server that refuses the connection, and a server
  that holds the text \<^verbatim>\<open>{oops\<close> under the key.
\<close>

theorem cache_get_fail_open_witness:
  "cache_get (lit ''k'') world_down = (Inr None, world_down)
   \<and> cache_get (lit ''k'') world_garbled = (Inr None, world_garbled)"
proof -
  have 1: "use_redis world_down" "use_redis world_garbled"
    by (simp_all add: world_down_def world_garbled_def world0_def)
  have 2: "redis_get (redis world_down) (lit ''k'') = Inl connection_error"
    by (simp add: redis_get_def redis_up_def world_down_def)
  have 3: "redis_get (redis world_garbled) (lit ''k'') = Inr (Some (lit ''{oops''))"
    by (simp add: redis_get_def redis_up_def world_garbled_def lit_def utf8_char_def)
  have 4: "json_loads (lit ''{oops'') = Inl (json_error ''Expecting property name enclosed in double quotes'')"
    by (simp add: eval_json)
  show ?thesis
    using cache_get_fail_open [of world_down "lit ''k''" connection_error]
      cache_get_fail_open [of world_garbled "lit ''k''" _ "lit ''{oops''"] 1 2 3 4
    by simp
qed

lemma py_new_frame:
  assumes "py_new v w = (r, w')"
  shows "use_redis w' = use_redis w" and "redis w' = redis w" and "local_cache w' = local_cache w"
    and "posted w' = posted w" and "logged w' = logged w"
  using assms by (auto simp: py_new_def split: if_splits)

lemma redis_get_SomeD:
  assumes "redis_get r k = Inr x"
  shows "outage r = None" and "\<exists>kb. utf8_encode k = Inr kb"
  using assms by (auto simp: redis_get_def split: option.splits sum.splits)

lemma redis_setex_ok:
  assumes "outage r = None" and "utf8_encode k = Inr kb" and "utf8_encode v = Inr vb" and "0 < ttl"
  shows "redis_setex r k ttl v = Inr (r\<lparr>db := (db r)(k \<mapsto> (v, clock r + nat ttl))\<rparr>)"
  using assms by (simp add: redis_setex_def)

lemma analyze_miss_fresh:
  assumes pdf: "pdf_reader ev b = Inr pages" "page_texts pages = Inr texts"
      "strip (join [10] texts) \<noteq> []"
    and svc: "api_key ev \<noteq> []"
      "http_post ev (length (posted w1)) (take 1000 jd) (take 3000 (join [10] texts)) = Inr body"
      "response_content body = Inr raw" "normalize raw = Inr v"
    and new: "py_new v (w1\<lparr>posted := posted w1 @ [(take 1000 jd, take 3000 (join [10] texts))]\<rparr>) = (fd, w4)"
    and wr: "cache_set k fd 3600 w4 = (Inr (), w5)"
  shows "analyze_miss ev k b jd w1 = (Inr (v, 200), w5)"
proof -
  have "py_val w5 fd = v"
    using py_val_cache_set [OF wr] py_val_py_new [OF new] by simp
  then show ?thesis
    using extract_ok [OF pdf(1,2), of w1] pdf(3) call_ok [OF svc(1-3)] svc(4) new wr
    by (simp add: analyze_miss_def)
qed

text \<open>
  C10: a stored value that Python reads as false is not served. Take a request with a
  file whose fingerprint \<open>k\<close> holds such a value: on the local backend an object that is
  falsy, on the shared backend a text that parses to a falsy value (the empty mapping, the
  empty list or string, zero, \<^verbatim>\<open>false\<close>, \<^verbatim>\<open>null\<close>). When the PDF gives text and the service
  answers with something that cleans into \<open>v\<close>, the request is handled as a miss: the
  response is \<open>v\<close> with status 200 (not the stored value, and no flag is added), one more
  request has been posted to the service, and the entry under \<open>k\<close> now holds \<open>v\<close> (on the
  shared backend when the text of \<open>v\<close> can be sent, with a fresh expiry of 3600 seconds).
\<close>

theorem falsy_entry_is_miss:
  assumes upload: "req_file req = Some b" "b \<noteq> []"
    and jd: "jd = (case req_jd req of None \<Rightarrow> [] | Some x \<Rightarrow> x)"
    and key: "generate_key b jd = Inr k"
    and stored: "(\<not> use_redis w \<and> local_cache w k = Some r \<and> \<not> truthy (py_val w r))
        \<or> (use_redis w \<and> redis_get (redis w) k = Inr (Some d) \<and> json_loads d = Inr v0
            \<and> \<not> truthy v0)"
    and pdf: "pdf_reader ev b = Inr pages" "page_texts pages = Inr texts"
      "strip (join [10] texts) \<noteq> []"
    and svc: "api_key ev \<noteq> []"
      "http_post ev (length (posted w)) (take 1000 jd) (take 3000 (join [10] texts)) = Inr body"
      "response_content body = Inr raw" "normalize raw = Inr v"
  shows "fst (analyze ev req w) = (v, 200)
     \<and> posted (snd (analyze ev req w)) = posted w @ [(take 1000 jd, take 3000 (join [10] texts))]
     \<and> (\<not> use_redis w \<longrightarrow>
          (\<exists>r'. local_cache (snd (analyze ev req w)) k = Some r'
                \<and> py_val (snd (analyze ev req w)) r' = v))
     \<and> (use_redis w \<longrightarrow> (\<forall>u. utf8_encode (json_dumps v) = Inr u \<longrightarrow>
          db (redis (snd (analyze ev req w))) k = Some (json_dumps v, clock (redis w) + 3600)))"
proof -
  define w0 where "w0 = log_msg INFO (lit ''Start Request: '' @ req_rid req) w"
  have w0: "use_redis w0 = use_redis w" "redis w0 = redis w" "local_cache w0 = local_cache w"
    "posted w0 = posted w" "heap w0 = heap w"
    by (simp_all add: w0_def log_msg_def)
  obtain c w1 where get: "cache_get k w0 = (Inr c, w1)" and falsy: "\<not> truthy (py_val w1 c)"
    and w1: "use_redis w1 = use_redis w" "redis w1 = redis w" "local_cache w1 = local_cache w"
      "posted w1 = posted w"
  proof -
    from stored show ?thesis
    proof
      assume l: "\<not> use_redis w \<and> local_cache w k = Some r \<and> \<not> truthy (py_val w r)"
      then have "cache_get k w0 = (Inr r, w0)"
        using w0 by (simp add: cache_get_def)
      moreover have "\<not> truthy (py_val w0 r)"
        using l py_val_cong [OF w0(5)] by simp
      ultimately show ?thesis
        using that w0 by blast
    next
      assume s: "use_redis w \<and> redis_get (redis w) k = Inr (Some d) \<and> json_loads d = Inr v0
            \<and> \<not> truthy v0"
      obtain c w1 where new: "py_new v0 w0 = (c, w1)"
        by (cases "py_new v0 w0")
      have "d \<noteq> []"
        using s by (auto simp: json_loads_def json_error_def skip_ws_def)
      then have "cache_get k w0 = (Inr c, w1)"
        using s w0 new by (simp add: cache_get_def)
      moreover have "\<not> truthy (py_val w1 c)"
        using s py_val_py_new [OF new] by simp
      ultimately show ?thesis
        using that py_new_frame [OF new] w0 by simp
    qed
  qed
  define w3 where "w3 = w1\<lparr>posted := posted w1 @ [(take 1000 jd, take 3000 (join [10] texts))]\<rparr>"
  obtain fd w4 where new: "py_new v w3 = (fd, w4)"
    by (cases "py_new v w3")
  obtain w5 where wr: "cache_set k fd 3600 w4 = (Inr (), w5)"
    using cache_set_returns by blast
  have miss: "analyze_miss ev k b jd w1 = (Inr (v, 200), w5)"
    using svc(2) w1(4) new wr
    by (intro analyze_miss_fresh [OF pdf svc(1) _ svc(3,4)]) (simp_all add: w3_def)
  have body: "analyze_body ev req w0 = (Inr (v, 200), w5)"
    using upload jd key get falsy miss by (simp add: analyze_body_def)
  have res: "analyze ev req w = ((v, 200), w5)"
    using body by (simp add: analyze_def w0_def)
  have w4: "use_redis w4 = use_redis w" "redis w4 = redis w" "posted w4 = posted w3"
    using py_new_frame [OF new] w1 by (simp_all add: w3_def)
  have p: "posted w5 = posted w @ [(take 1000 jd, take 3000 (join [10] texts))]"
    using wr w4(3) w1(4)
    by (auto simp: cache_set_def log_msg_def w3_def split: if_splits sum.splits)
  have l: "\<exists>r'. local_cache w5 k = Some r' \<and> py_val w5 r' = v" if "\<not> use_redis w"
  proof -
    have "w5 = w4\<lparr>local_cache := (local_cache w4)(k \<mapsto> fd)\<rparr>"
      using wr that w4(1) by (simp add: cache_set_def)
    moreover have "py_val w5 fd = v"
      using py_val_cache_set [OF wr] py_val_py_new [OF new] by simp
    ultimately show ?thesis by simp
  qed
  have s: "db (redis w5) k = Some (json_dumps v, clock (redis w) + 3600)"
    if "use_redis w" and u: "utf8_encode (json_dumps v) = Inr u" for u
  proof -
    from stored that have g: "redis_get (redis w) k = Inr (Some d)"
      by auto
    obtain kb where kb: "utf8_encode k = Inr kb"
      using redis_get_SomeD(2) [OF g] by blast
    have v4: "py_val w4 fd = v"
      using py_val_py_new [OF new] .
    have "redis_setex (redis w4) k 3600 (json_dumps (py_val w4 fd))
        = Inr ((redis w)\<lparr>db := (db (redis w))(k \<mapsto> (json_dumps v, clock (redis w) + nat 3600))\<rparr>)"
      using redis_setex_ok [OF redis_get_SomeD(1) [OF g] kb u, of 3600] w4(2) v4 by simp
    then have "redis w5 = (redis w)\<lparr>db := (db (redis w))(k \<mapsto> (json_dumps v, clock (redis w) + nat 3600))\<rparr>"
      using wr that w4(1) by (auto simp: cache_set_def)
    then show ?thesis by simp
  qed
  show ?thesis
    using p l s by (simp add: res)
qed

lemma utf8_key_example:
  "utf8_encode key_example = Inr (map of_nat key_example)"
  by (simp add: key_example_def lit_def utf8_char_def)

lemma digits_of_nat_small: "n < 10 \<Longrightarrow> digits_of_nat n = [48 + n]"
  by (simp add: digits_of_nat.simps)

lemma dumps_example: "json_dumps (JObj [(lit ''a'', JInt 1)]) = lit ''{'' @ [34] @ lit ''a'' @ [34] @ lit '': 1}''"
  by (simp add: lit_def encode_basestring_def escape_char_def show_int_def digits_of_nat_small)

text \<open>
  The answer \<^verbatim>\<open>{}\<close> is cleaned into the empty mapping, which is falsy. With the empty
  mapping stored under the key of the example request, on the local backend and as the
  text \<^verbatim>\<open>{}\<close> on the shared backend, the request calls the service and stores the new
  result.
\<close>

theorem falsy_entry_is_miss_witness:
  "normalize (JStr (lit ''{}'')) = Inr (JObj []) \<and> \<not> truthy (JObj [])
   \<and> fst (analyze env_example req_example world_empty_entry) = (JObj [(lit ''a'', JInt 1)], 200)
   \<and> posted (snd (analyze env_example req_example world_empty_entry)) = [(lit ''dev'', lit ''Jane Doe'')]
   \<and> (\<exists>r'. local_cache (snd (analyze env_example req_example world_empty_entry)) key_example = Some r'
          \<and> py_val (snd (analyze env_example req_example world_empty_entry)) r' = JObj [(lit ''a'', JInt 1)])
   \<and> fst (analyze env_example req_example world_shared_empty_entry) = (JObj [(lit ''a'', JInt 1)], 200)
   \<and> posted (snd (analyze env_example req_example world_shared_empty_entry)) = [(lit ''dev'', lit ''Jane Doe'')]
   \<and> db (redis (snd (analyze env_example req_example world_shared_empty_entry))) key_example
       = Some (json_dumps (JObj [(lit ''a'', JInt 1)]), 3600)"
proof -
  have n: "normalize (JStr (lit ''{}'')) = Inr (JObj [])"
    by (simp add: eval_clean eval_json)
  have f: "req_file req_example = Some pdf_magic"
    and j: "lit ''dev'' = (case req_jd req_example of None \<Rightarrow> [] | Some x \<Rightarrow> x)"
    by (simp_all add: req_example_def)
  have pdf: "pdf_reader env_example pdf_magic = Inr [Inr (Some (lit ''Jane Doe''))]"
    "page_texts [Inr (Some (lit ''Jane Doe''))] = Inr [lit ''Jane Doe'']"
    "strip (join [10] [lit ''Jane Doe'']) \<noteq> []"
    using strip_example by (simp_all add: env_example_def)
  have svc: "api_key env_example \<noteq> []"
    "http_post env_example n (take 1000 (lit ''dev'')) (take 3000 (join [10] [lit ''Jane Doe'']))
       = Inr (answer_body bare_example)"
    "response_content (answer_body bare_example) = Inr (JStr bare_example)" for n
    by (simp_all add: env_example_def response_content_def answer_body_def lit_def)
  have l: "(\<not> use_redis world_empty_entry \<and> local_cache world_empty_entry key_example = Some (Some 0)
             \<and> \<not> truthy (py_val world_empty_entry (Some 0)))
        \<or> (use_redis world_empty_entry \<and> redis_get (redis world_empty_entry) key_example = Inr (Some [])
             \<and> json_loads [] = Inr JNull \<and> \<not> truthy JNull)"
    by (simp add: world_empty_entry_def world0_def py_val_def)
  have s: "(\<not> use_redis world_shared_empty_entry \<and> local_cache world_shared_empty_entry key_example = Some None
             \<and> \<not> truthy (py_val world_shared_empty_entry None))
        \<or> (use_redis world_shared_empty_entry
             \<and> redis_get (redis world_shared_empty_entry) key_example = Inr (Some (lit ''{}''))
             \<and> json_loads (lit ''{}'') = Inr (JObj []) \<and> \<not> truthy (JObj []))"
    by (simp add: world_shared_empty_entry_def world0_def redis_up_def redis_get_def utf8_key_example)
      (simp add: eval_json)
  have enc: "utf8_encode (json_dumps (JObj [(lit ''a'', JInt 1)])) = Inr [123, 34, 97, 34, 58, 32, 49, 125]"
    by (subst dumps_example) (simp add: lit_def utf8_char_def)
  have pl: "posted world_empty_entry = []" and ps: "posted world_shared_empty_entry = []"
    and ul: "\<not> use_redis world_empty_entry" and us: "use_redis world_shared_empty_entry"
    and cs: "clock (redis world_shared_empty_entry) = 0"
    by (simp_all add: world_empty_entry_def world_shared_empty_entry_def world0_def redis_up_def)
  have a: "fst (analyze env_example req_example world_empty_entry) = (JObj [(lit ''a'', JInt 1)], 200)
     \<and> posted (snd (analyze env_example req_example world_empty_entry))
         = posted world_empty_entry @ [(take 1000 (lit ''dev''), take 3000 (join [10] [lit ''Jane Doe'']))]
     \<and> (\<exists>r'. local_cache (snd (analyze env_example req_example world_empty_entry)) key_example = Some r'
          \<and> py_val (snd (analyze env_example req_example world_empty_entry)) r' = JObj [(lit ''a'', JInt 1)])"
    using falsy_entry_is_miss [OF f pdf_magic_nonempty j generate_key_example l pdf svc normalize_bare] ul
    by blast
  have b: "fst (analyze env_example req_example world_shared_empty_entry) = (JObj [(lit ''a'', JInt 1)], 200)
     \<and> posted (snd (analyze env_example req_example world_shared_empty_entry))
         = posted world_shared_empty_entry @ [(take 1000 (lit ''dev''), take 3000 (join [10] [lit ''Jane Doe'']))]
     \<and> db (redis (snd (analyze env_example req_example world_shared_empty_entry))) key_example
         = Some (json_dumps (JObj [(lit ''a'', JInt 1)]), clock (redis world_shared_empty_entry) + 3600)"
    using falsy_entry_is_miss [OF f pdf_magic_nonempty j generate_key_example s pdf svc normalize_bare] us enc
    by blast
  show ?thesis
    using n a b by (simp add: pl ps cs lit_def)
qed

end
